theory Spec2Isabelle
  imports Complex_Main
begin

section \<open>Data model\<close>

text \<open>
  The types of \<^verbatim>\<open>src/lib/supabase.ts\<close> and the three tables of the SQL migration.
  A uuid is a 128-bit number and a \<^verbatim>\<open>timestamptz\<close> a point in time; both are natural
  numbers here. TypeScript's \<^verbatim>\<open>number\<close> is a real (finite values only), text is a
  \<open>string\<close> whose characters stand for the code units of the JavaScript string.
\<close>

type_synonym uuid = nat
type_synonym timestamptz = nat

datatype UserRole = creator | underwriter | manager

datatype PolicyStatus = draft | pending_underwriter | pending_manager | approved | rejected

datatype ApprovalAction = act_submitted | act_approved | act_rejected

text \<open>
  TypeScript's object types are structural: \<^verbatim>\<open>performFraudCheck\<close> takes any object with
  the three fields below, \<^verbatim>\<open>createPolicy\<close> one with \<^verbatim>\<open>creator_id\<close> besides, and a row
  of \<^verbatim>\<open>policies\<close> has all of them. The records extend one another accordingly.
\<close>

record FraudInput =
  customer_name :: string
  premium_amount :: real
  product_type :: string

record PolicyData = FraudInput +
  creator_id :: uuid

text \<open>
  \<open>PolicyInsert\<close> is the object \<^verbatim>\<open>createPolicy\<close> hands to \<^verbatim>\<open>insert\<close>; a stored row has
  the columns the database fills by default besides (\<^verbatim>\<open>id\<close>, \<^verbatim>\<open>created_at\<close>,
  \<^verbatim>\<open>updated_at\<close>).
\<close>

record PolicyInsert = PolicyData +
  policy_number :: string
  fraud_check_passed :: bool
  fraud_check_reason :: string
  status :: PolicyStatus

record Policy = PolicyInsert +
  p_id :: uuid
  p_created_at :: timestamptz
  p_updated_at :: timestamptz

text \<open>The argument \<^verbatim>\<open>updates\<close> of \<^verbatim>\<open>updatePolicy\<close>: every field is optional.\<close>

record PolicyUpdates =
  upd_customer_name :: "string option"
  upd_premium_amount :: "real option"
  upd_product_type :: "string option"

text \<open>The body of an update request on \<^verbatim>\<open>policies\<close>: the service also sets \<^verbatim>\<open>status\<close>.\<close>

record PolicyPatch = PolicyUpdates +
  upd_status :: "PolicyStatus option"

record UserProfile =
  u_id :: uuid
  email :: string
  full_name :: string
  u_role :: UserRole
  u_created_at :: timestamptz

text \<open>
  The object \<^verbatim>\<open>logApproval\<close> inserts, and the stored row of \<^verbatim>\<open>approval_logs\<close>. The
  columns \<^verbatim>\<open>action\<close>, \<^verbatim>\<open>role\<close> and \<^verbatim>\<open>comments\<close> carry the prefix \<open>log_\<close>, the
  service's parameters having these names.
\<close>

record ApprovalLogInsert =
  policy_id :: uuid
  approver_id :: uuid
  log_action :: ApprovalAction
  log_role :: string
  log_comments :: string
  previous_status :: PolicyStatus
  new_status :: PolicyStatus

record ApprovalLog = ApprovalLogInsert +
  l_id :: uuid
  l_created_at :: timestamptz

text \<open>The optional argument \<^verbatim>\<open>filters\<close> of \<^verbatim>\<open>getPolicies\<close>.\<close>

record Filters =
  f_status :: "PolicyStatus option"
  f_creator_id :: "uuid option"

record FraudResult =
  passed :: bool
  reason :: string

section \<open>Strings\<close>

definition is_digit :: "char \<Rightarrow> bool" where
  "is_digit c = (48 \<le> (of_char c :: nat) \<and> (of_char c :: nat) \<le> 57)"

text \<open>The regular expression \<^verbatim>\<open>/^\d+$/\<close>: one or more characters, all of them digits.\<close>

definition all_digits_re :: "string \<Rightarrow> bool" where
  "all_digits_re s = (s \<noteq> [] \<and> list_all is_digit s)"

text \<open>White space as \<^verbatim>\<open>String.prototype.trim\<close> sees it, among the characters of \<open>char\<close>.\<close>

definition is_white_space :: "char \<Rightarrow> bool" where
  "is_white_space c = ((of_char c :: nat) \<in> {9, 10, 11, 12, 13, 32, 160})"

definition trim :: "string \<Rightarrow> string" where
  "trim s = rev (dropWhile is_white_space (rev (dropWhile is_white_space s)))"

fun show_nat :: "nat \<Rightarrow> string" where
  "show_nat n =
     (if n < 10 then [char_of (48 + n)]
      else show_nat (n div 10) @ [char_of (48 + n mod 10)])"

declare show_nat.simps [simp del]

fun join :: "string \<Rightarrow> string list \<Rightarrow> string" where
  "join sep [] = []"
| "join sep [x] = x"
| "join sep (x # y # ys) = x @ sep @ join sep (y # ys)"

section \<open>Fraud check\<close>

text \<open>
  \<^verbatim>\<open>performFraudCheck\<close>, lines 13 to 34: the locals \<^verbatim>\<open>riskFactors\<close> and \<^verbatim>\<open>riskScore\<close>
  after the three checks. The argument \<open>rnd\<close> is the value \<^verbatim>\<open>Math.random()\<close> returned.
\<close>

definition riskAssessment :: "real \<Rightarrow> 'a FraudInput_scheme \<Rightarrow> string list \<times> nat" where
  "riskAssessment rnd policy =
     (let riskFactors = []; riskScore = 0;
          randomFraudFlag = (rnd < 0.2);
          (riskFactors, riskScore) =
             (if randomFraudFlag
              then (riskFactors @ [''Anomalous pattern detected by AI model''], riskScore + 50)
              else (riskFactors, riskScore));
          (riskFactors, riskScore) =
             (if premium_amount policy > 100000
              then (riskFactors @ [''Unusually high premium amount''], riskScore + 30)
              else (riskFactors, riskScore));
          (riskFactors, riskScore) =
             (if length (customer_name policy) < 3 \<or> all_digits_re (customer_name policy)
              then (riskFactors @ [''Invalid customer name format''], riskScore + 40)
              else (riskFactors, riskScore))
      in (riskFactors, riskScore))"

definition performFraudCheck :: "real \<Rightarrow> 'a FraudInput_scheme \<Rightarrow> FraudResult" where
  "performFraudCheck rnd policy =
     (let (riskFactors, riskScore) = riskAssessment rnd policy;
          passed = (riskScore < 50);
          reason =
            (if passed then ''All fraud checks passed successfully''
             else ''Fraud risk detected: '' @ join '', '' riskFactors
                  @ '' (Risk Score: '' @ show_nat riskScore @ '')'')
      in \<lparr>passed = passed, reason = reason\<rparr>)"

section \<open>The hosted database\<close>

text \<open>
  The service keeps no state of its own: every operation is a request to the database,
  made in the name of the signed-in user. \<open>world\<close> holds the three tables (rows in the
  order of insertion), the requests made so far and the lines written to the console.
  \<open>env\<close> holds what one service call takes from its surroundings: the session's user
  (\<^verbatim>\<open>auth.uid()\<close>, \<open>None\<close> for a visitor who is not signed in), the clock (\<^verbatim>\<open>now()\<close>,
  \<^verbatim>\<open>Date.now()\<close>), the value \<^verbatim>\<open>uuid_generate_v4()\<close> yields and the value of
  \<^verbatim>\<open>Math.random()\<close>.

  The tables, their constraints, the row-level security policies, the trigger and the
  function \<^verbatim>\<open>generate_policy_number\<close> are those of the SQL migration. What a request
  does with them is the database's part:
  \<^item> a request is one statement, committed on its own; a statement that fails changes
    nothing;
  \<^item> a row that fails every \<^verbatim>\<open>USING\<close> expression is not seen by the statement, which
    is no error; a new row that fails every \<^verbatim>\<open>WITH CHECK\<close> expression is an error;
  \<^item> \<^verbatim>\<open>.single()\<close> is an error unless exactly one row comes back, and then the
    statement is undone; \<^verbatim>\<open>.maybeSingle()\<close> gives \<^verbatim>\<open>null\<close> for no row;
  \<^item> the database answers every request: failures of the transport are left out.
\<close>

datatype db_error =
  rls_violation | check_violation | unique_violation | foreign_key_violation
  | numeric_overflow | not_single_row

datatype error = PolicyNotFound | InvalidWorkflowState | DbError db_error

datatype request =
  rpc_generate_policy_number | insert_policy | update_policy uuid | select_policy uuid
  | select_policies | insert_approval_log | select_approval_logs uuid

record world =
  user_profiles :: "UserProfile list"
  policies :: "Policy list"
  approval_logs :: "ApprovalLog list"
  requests :: "request list"
  console :: "(string \<times> string) list"

record env =
  auth_uid :: "uuid option"
  now :: timestamptz
  uuid_v4 :: uuid
  math_random :: real

subsection \<open>Row-level security policies of the migration\<close>

text \<open>
  Every policy is granted \<^verbatim>\<open>TO authenticated\<close> and all are permissive. PostgreSQL joins
  the permissive policies for one command on one table by OR: the \<^verbatim>\<open>USING\<close> expressions
  among themselves and the \<^verbatim>\<open>WITH CHECK\<close> expressions among themselves, so that a row
  selected by one policy's \<^verbatim>\<open>USING\<close> may be stored by another policy's
  \<^verbatim>\<open>WITH CHECK\<close>. \<^verbatim>\<open>USING\<close> reads the stored row, \<^verbatim>\<open>WITH CHECK\<close> the row as it would be
  stored. An update that names columns in \<^verbatim>\<open>WHERE\<close> or returns rows also needs the
  \<^verbatim>\<open>SELECT\<close> policy, on the stored row and on the new one.

  \<open>profile_exists\<close> is \<^verbatim>\<open>EXISTS (SELECT 1 FROM user_profiles WHERE user_profiles.id =
  auth.uid())\<close>, and \<open>profile_has_role\<close> the same with \<^verbatim>\<open>AND user_profiles.role = ...\<close>.
\<close>

definition profile_exists :: "world \<Rightarrow> env \<Rightarrow> bool" where
  "profile_exists w e = list_ex (\<lambda>u. Some (u_id u) = auth_uid e) (user_profiles w)"

definition profile_has_role :: "world \<Rightarrow> env \<Rightarrow> UserRole \<Rightarrow> bool" where
  "profile_has_role w e r =
     list_ex (\<lambda>u. Some (u_id u) = auth_uid e \<and> u_role u = r) (user_profiles w)"

text \<open>"Creators can view all policies", \<^verbatim>\<open>FOR SELECT USING (EXISTS (...))\<close>\<close>

definition policies_select_using :: "world \<Rightarrow> env \<Rightarrow> Policy \<Rightarrow> bool" where
  "policies_select_using w e p = profile_exists w e"

text \<open>
  "Creators can create policies",
  \<^verbatim>\<open>FOR INSERT WITH CHECK (creator_id = auth.uid() AND EXISTS (... role = 'creator'))\<close>
\<close>

definition policies_insert_check :: "world \<Rightarrow> env \<Rightarrow> Policy \<Rightarrow> bool" where
  "policies_insert_check w e p =
     (Some (creator_id p) = auth_uid e \<and> profile_has_role w e creator)"

text \<open>
  "Creators can update own draft policies", \<^verbatim>\<open>FOR UPDATE\<close>
  \<^verbatim>\<open>USING (creator_id = auth.uid() AND status = 'draft' AND EXISTS (... role = 'creator'))\<close>
  \<^verbatim>\<open>WITH CHECK (creator_id = auth.uid() AND status = 'draft')\<close>
\<close>

definition creators_update_using :: "world \<Rightarrow> env \<Rightarrow> Policy \<Rightarrow> bool" where
  "creators_update_using w e p =
     (Some (creator_id p) = auth_uid e \<and> status p = draft \<and> profile_has_role w e creator)"

definition creators_update_check :: "env \<Rightarrow> Policy \<Rightarrow> bool" where
  "creators_update_check e p = (Some (creator_id p) = auth_uid e \<and> status p = draft)"

text \<open>
  "Underwriters can update pending underwriter policies", \<^verbatim>\<open>FOR UPDATE\<close>
  \<^verbatim>\<open>USING (status = 'pending_underwriter' AND EXISTS (... role = 'underwriter'))\<close>
  \<^verbatim>\<open>WITH CHECK (status IN ('pending_manager', 'rejected'))\<close>
\<close>

definition underwriters_update_using :: "world \<Rightarrow> env \<Rightarrow> Policy \<Rightarrow> bool" where
  "underwriters_update_using w e p =
     (status p = pending_underwriter \<and> profile_has_role w e underwriter)"

definition underwriters_update_check :: "Policy \<Rightarrow> bool" where
  "underwriters_update_check p = (status p = pending_manager \<or> status p = rejected)"

text \<open>
  "Managers can update pending manager policies", \<^verbatim>\<open>FOR UPDATE\<close>
  \<^verbatim>\<open>USING (status = 'pending_manager' AND EXISTS (... role = 'manager'))\<close>
  \<^verbatim>\<open>WITH CHECK (status IN ('approved', 'rejected'))\<close>
\<close>

definition managers_update_using :: "world \<Rightarrow> env \<Rightarrow> Policy \<Rightarrow> bool" where
  "managers_update_using w e p =
     (status p = pending_manager \<and> profile_has_role w e manager)"

definition managers_update_check :: "Policy \<Rightarrow> bool" where
  "managers_update_check p = (status p = approved \<or> status p = rejected)"

text \<open>The three policies for \<^verbatim>\<open>UPDATE\<close> on \<^verbatim>\<open>policies\<close>, joined.\<close>

definition policies_update_using :: "world \<Rightarrow> env \<Rightarrow> Policy \<Rightarrow> bool" where
  "policies_update_using w e p =
     (creators_update_using w e p \<or> underwriters_update_using w e p
      \<or> managers_update_using w e p)"

definition policies_update_check :: "env \<Rightarrow> Policy \<Rightarrow> bool" where
  "policies_update_check e p =
     (creators_update_check e p \<or> underwriters_update_check p \<or> managers_update_check p)"

text \<open>"All users can view approval logs", \<^verbatim>\<open>FOR SELECT USING (true)\<close>\<close>

definition approval_logs_select_using :: "env \<Rightarrow> ApprovalLog \<Rightarrow> bool" where
  "approval_logs_select_using e l = (auth_uid e \<noteq> None)"

text \<open>
  "Authenticated users can insert approval logs",
  \<^verbatim>\<open>FOR INSERT WITH CHECK (approver_id = auth.uid())\<close>
\<close>

definition approval_logs_insert_check :: "env \<Rightarrow> ApprovalLog \<Rightarrow> bool" where
  "approval_logs_insert_check e l = (Some (approver_id l) = auth_uid e)"

subsection \<open>Column types and functions of the migration\<close>

text \<open>
  \<^verbatim>\<open>numeric(10, 2)\<close>: the value is rounded to two decimals, half away from zero, and
  refused when it needs more than ten digits.
\<close>

definition numeric_10_2 :: "real \<Rightarrow> real option" where
  "numeric_10_2 x =
     (let c = (if 0 \<le> x then \<lfloor>x * 100 + 1 / 2\<rfloor> else - \<lfloor>- x * 100 + 1 / 2\<rfloor>)
      in if \<bar>c\<bar> < 10 ^ 10 then Some (real_of_int c / 100) else None)"

text \<open>\<^verbatim>\<open>LPAD\<close> fills on the left, and cuts on the right a text that is too long.\<close>

definition lpad :: "string \<Rightarrow> nat \<Rightarrow> char \<Rightarrow> string" where
  "lpad s n c = (if n \<le> length s then take n s else replicate (n - length s) c @ s)"

text \<open>
  \<^verbatim>\<open>generate_policy_number()\<close> runs with the rights of the caller, so that its
  \<^verbatim>\<open>COUNT(*)\<close> counts the rows the caller may see.
\<close>

definition generate_policy_number :: "env \<Rightarrow> world \<Rightarrow> string" where
  "generate_policy_number e w =
     (let counter = length (filter (policies_select_using w e) (policies w)) + 1
      in ''POL-'' @ lpad (show_nat counter) 6 (CHR ''0''))"

subsection \<open>Requests\<close>

definition request :: "request \<Rightarrow> world \<Rightarrow> world" where
  "request r w = w\<lparr>requests := requests w @ [r]\<rparr>"

text \<open>\<^verbatim>\<open>from('policies').insert(payload).select().single()\<close>\<close>

definition db_insert_policy ::
  "env \<Rightarrow> PolicyInsert \<Rightarrow> world \<Rightarrow> (db_error + Policy) \<times> world" where
  "db_insert_policy e payload w0 =
     (let w = request insert_policy w0 in
      case numeric_10_2 (premium_amount payload) of
        None \<Rightarrow> (Inl numeric_overflow, w)
      | Some amount \<Rightarrow>
          let row = PolicyInsert.extend (payload\<lparr>premium_amount := amount\<rparr>)
                      (Policy.fields (uuid_v4 e) (now e) (now e))
          in if \<not> (policies_insert_check w e row \<and> policies_select_using w e row)
             then (Inl rls_violation, w)
             else if \<not> premium_amount row > 0 then (Inl check_violation, w)
             else if list_ex (\<lambda>p. p_id p = p_id row \<or> policy_number p = policy_number row)
                       (policies w)
             then (Inl unique_violation, w)
             else if \<not> list_ex (\<lambda>u. u_id u = creator_id row) (user_profiles w)
             then (Inl foreign_key_violation, w)
             else (Inr row, w\<lparr>policies := policies w @ [row]\<rparr>))"

text \<open>
  \<^verbatim>\<open>from('policies').update(patch).eq('id', pid).select().single()\<close>: the rows with the
  id that the caller may see and update are changed, the trigger stamps them, each new
  row must pass a \<^verbatim>\<open>WITH CHECK\<close> and the table's \<^verbatim>\<open>CHECK\<close>; unless exactly one row
  comes back the request is an error and changes nothing.
\<close>

definition patched :: "env \<Rightarrow> PolicyPatch \<Rightarrow> real option \<Rightarrow> Policy \<Rightarrow> Policy" where
  "patched e patch amount p =
     p\<lparr>customer_name := (case upd_customer_name patch of None \<Rightarrow> customer_name p | Some v \<Rightarrow> v),
       premium_amount := (case amount of None \<Rightarrow> premium_amount p | Some v \<Rightarrow> v),
       product_type := (case upd_product_type patch of None \<Rightarrow> product_type p | Some v \<Rightarrow> v),
       status := (case upd_status patch of None \<Rightarrow> status p | Some v \<Rightarrow> v),
       p_updated_at := now e\<rparr>"

definition db_update_policy ::
  "env \<Rightarrow> uuid \<Rightarrow> PolicyPatch \<Rightarrow> world \<Rightarrow> (db_error + Policy) \<times> world" where
  "db_update_policy e pid patch w0 =
     (let w = request (update_policy pid) w0 in
      case (case upd_premium_amount patch of
              None \<Rightarrow> Some None
            | Some x \<Rightarrow> map_option Some (numeric_10_2 x)) of
        None \<Rightarrow> (Inl numeric_overflow, w)
      | Some amount \<Rightarrow>
          let target = (\<lambda>p. p_id p = pid \<and> policies_select_using w e p
                             \<and> policies_update_using w e p);
              rows = map (patched e patch amount) (filter target (policies w))
          in if \<not> list_all (\<lambda>p. policies_update_check e p \<and> policies_select_using w e p) rows
             then (Inl rls_violation, w)
             else if \<not> list_all (\<lambda>p. premium_amount p > 0) rows
             then (Inl check_violation, w)
             else (case rows of
                     [row] \<Rightarrow>
                       (Inr row,
                        w\<lparr>policies :=
                            map (\<lambda>p. if target p then patched e patch amount p else p)
                              (policies w)\<rparr>)
                   | _ \<Rightarrow> (Inl not_single_row, w)))"

text \<open>\<^verbatim>\<open>from('policies').select('*').eq('id', pid).maybeSingle()\<close>\<close>

definition db_select_policy ::
  "env \<Rightarrow> uuid \<Rightarrow> world \<Rightarrow> (db_error + Policy option) \<times> world" where
  "db_select_policy e pid w0 =
     (let w = request (select_policy pid) w0 in
      case filter (\<lambda>p. p_id p = pid \<and> policies_select_using w e p) (policies w) of
        [] \<Rightarrow> (Inr None, w)
      | [p] \<Rightarrow> (Inr (Some p), w)
      | _ \<Rightarrow> (Inl not_single_row, w))"

text \<open>\<^verbatim>\<open>from('policies').select('*').order('created_at', { ascending: false })\<close>, filtered\<close>

definition db_select_policies ::
  "env \<Rightarrow> (Policy \<Rightarrow> bool) \<Rightarrow> world \<Rightarrow> Policy list \<times> world" where
  "db_select_policies e cond w0 =
     (let w = request select_policies w0 in
      (rev (sort_key p_created_at
              (filter (\<lambda>p. cond p \<and> policies_select_using w e p) (policies w))), w))"

text \<open>\<^verbatim>\<open>from('approval_logs').insert(payload)\<close>\<close>

definition db_insert_approval_log ::
  "env \<Rightarrow> ApprovalLogInsert \<Rightarrow> world \<Rightarrow> (db_error + unit) \<times> world" where
  "db_insert_approval_log e payload w0 =
     (let w = request insert_approval_log w0;
          row = ApprovalLogInsert.extend payload (ApprovalLog.fields (uuid_v4 e) (now e))
      in if \<not> approval_logs_insert_check e row then (Inl rls_violation, w)
         else if list_ex (\<lambda>l. l_id l = l_id row) (approval_logs w)
         then (Inl unique_violation, w)
         else if \<not> list_ex (\<lambda>p. p_id p = policy_id row) (policies w)
                 \<or> \<not> list_ex (\<lambda>u. u_id u = approver_id row) (user_profiles w)
         then (Inl foreign_key_violation, w)
         else (Inr (), w\<lparr>approval_logs := approval_logs w @ [row]\<rparr>))"

text \<open>
  \<^verbatim>\<open>from('approval_logs').select('*, user_profiles(full_name, role)')\<close> of one policy,
  newest first: each entry with the name and role of its approver.
\<close>

definition db_select_approval_logs ::
  "env \<Rightarrow> uuid \<Rightarrow> world \<Rightarrow> (ApprovalLog \<times> (string \<times> UserRole) option) list \<times> world" where
  "db_select_approval_logs e pid w0 =
     (let w = request (select_approval_logs pid) w0;
          embed = (\<lambda>l. case filter (\<lambda>u. u_id u = approver_id l) (user_profiles w) of
                          [] \<Rightarrow> None
                        | u # _ \<Rightarrow> Some (full_name u, u_role u))
      in (map (\<lambda>l. (l, embed l))
            (rev (sort_key l_created_at
                    (filter (\<lambda>l. policy_id l = pid \<and> approval_logs_select_using e l)
                       (approval_logs w)))), w))"

section \<open>The service\<close>

text \<open>
  The functions of \<^verbatim>\<open>src/services/policyService.ts\<close>. An \<^verbatim>\<open>async\<close> function returns
  its value or the error it throws, together with the world it leaves behind; the
  requests of one call are made in turn, each one committed on its own.
\<close>

text \<open>
  \<^verbatim>\<open>notify\<close> writes one line to the console; of the line the type and the message are
  kept, the data object and the time are left out, and so is the line that
  \<^verbatim>\<open>performFraudCheck\<close> writes.
\<close>

definition notify :: "string \<Rightarrow> string \<Rightarrow> world \<Rightarrow> world" where
  "notify type message w = w\<lparr>console := console w @ [(type, message)]\<rparr>"

text \<open>
  \<^verbatim>\<open>generatePolicyNumber\<close> falls back on the clock when the call of the database function
  gives an error or no text; with the transport left out, only the second can happen.
\<close>

definition generatePolicyNumber :: "env \<Rightarrow> world \<Rightarrow> string \<times> world" where
  "generatePolicyNumber e w0 =
     (let w = request rpc_generate_policy_number w0;
          data = generate_policy_number e w
      in if data = [] then (''POL-'' @ show_nat (now e), w) else (data, w))"

text \<open>
  \<^verbatim>\<open>createPolicy\<close> runs the fraud check (line 97) and goes on with its result;
  \<open>createPolicy_with\<close> is the rest of the function, from line 99 on, for a given result.
\<close>

definition createPolicy_with ::
  "FraudResult \<Rightarrow> env \<Rightarrow> PolicyData \<Rightarrow> world \<Rightarrow> (error + Policy) \<times> world" where
  "createPolicy_with fraudCheck e policyData w0 =
     (let (policyNumber, w1) = generatePolicyNumber e w0
      in case db_insert_policy e
                \<lparr>customer_name = customer_name policyData,
                 premium_amount = premium_amount policyData,
                 product_type = product_type policyData,
                 creator_id = creator_id policyData,
                 policy_number = policyNumber,
                 fraud_check_passed = passed fraudCheck,
                 fraud_check_reason = reason fraudCheck,
                 status = draft\<rparr> w1 of
           (Inl err, w2) \<Rightarrow> (Inl (DbError err), w2)
         | (Inr data, w2) \<Rightarrow>
             let w3 = notify ''policy_created'' ''New policy created'' w2;
                 w4 = (if \<not> passed fraudCheck
                       then notify ''fraud_alert'' ''Policy flagged for fraud review'' w3
                       else w3)
             in (Inr data, w4))"

definition createPolicy :: "env \<Rightarrow> PolicyData \<Rightarrow> world \<Rightarrow> (error + Policy) \<times> world" where
  "createPolicy e policyData w0 =
     (let fraudCheck = performFraudCheck (math_random e) policyData
      in createPolicy_with fraudCheck e policyData w0)"

definition updatePolicy ::
  "env \<Rightarrow> uuid \<Rightarrow> PolicyUpdates \<Rightarrow> world \<Rightarrow> (error + Policy) \<times> world" where
  "updatePolicy e policyId updates w0 =
     (case db_update_policy e policyId
             (PolicyUpdates.extend updates (PolicyPatch.fields None)) w0 of
        (Inl err, w1) \<Rightarrow> (Inl (DbError err), w1)
      | (Inr data, w1) \<Rightarrow> (Inr data, notify ''policy_updated'' ''Policy updated'' w1))"

definition getPolicies ::
  "env \<Rightarrow> Filters option \<Rightarrow> world \<Rightarrow> (error + Policy list) \<times> world" where
  "getPolicies e filters w0 =
     (let by_status = (\<lambda>p. case filters of
                              None \<Rightarrow> True
                            | Some f \<Rightarrow> (case f_status f of
                                          None \<Rightarrow> True
                                        | Some s \<Rightarrow> status p = s));
          by_creator = (\<lambda>p. case filters of
                               None \<Rightarrow> True
                             | Some f \<Rightarrow> (case f_creator_id f of
                                           None \<Rightarrow> True
                                         | Some c \<Rightarrow> creator_id p = c));
          (data, w1) = db_select_policies e (\<lambda>p. by_status p \<and> by_creator p) w0
      in (Inr data, w1))"

definition getPolicy :: "env \<Rightarrow> uuid \<Rightarrow> world \<Rightarrow> (error + Policy option) \<times> world" where
  "getPolicy e policyId w0 =
     (case db_select_policy e policyId w0 of
        (Inl err, w1) \<Rightarrow> (Inl (DbError err), w1)
      | (Inr data, w1) \<Rightarrow> (Inr data, w1))"

definition logApproval ::
  "env \<Rightarrow> uuid \<Rightarrow> uuid \<Rightarrow> ApprovalAction \<Rightarrow> string \<Rightarrow> string \<Rightarrow> PolicyStatus \<Rightarrow> PolicyStatus
     \<Rightarrow> world \<Rightarrow> (error + unit) \<times> world" where
  "logApproval e policyId approverId action role comments previousStatus newStatus w0 =
     (case db_insert_approval_log e
             \<lparr>policy_id = policyId, approver_id = approverId, log_action = action,
              log_role = role, log_comments = comments, previous_status = previousStatus,
              new_status = newStatus\<rparr> w0 of
        (Inl err, w1) \<Rightarrow> (Inl (DbError err), w1)
      | (Inr u, w1) \<Rightarrow> (Inr (), w1))"

definition submitPolicy :: "env \<Rightarrow> uuid \<Rightarrow> uuid \<Rightarrow> world \<Rightarrow> (error + Policy) \<times> world" where
  "submitPolicy e policyId creatorId w0 =
     (case getPolicy e policyId w0 of
        (Inl err, w1) \<Rightarrow> (Inl err, w1)
      | (Inr None, w1) \<Rightarrow> (Inl PolicyNotFound, w1)
      | (Inr (Some policy), w1) \<Rightarrow>
          (case db_update_policy e policyId
                  \<lparr>upd_customer_name = None, upd_premium_amount = None,
                   upd_product_type = None, upd_status = Some pending_underwriter\<rparr> w1 of
             (Inl err, w2) \<Rightarrow> (Inl (DbError err), w2)
           | (Inr data, w2) \<Rightarrow>
               (case logApproval e policyId creatorId act_submitted ''creator'' [] draft
                       pending_underwriter w2 of
                  (Inl err, w3) \<Rightarrow> (Inl err, w3)
                | (Inr u, w3) \<Rightarrow>
                    (Inr data,
                     notify ''approval_required'' ''Underwriter action required''
                       (notify ''policy_submitted'' ''Policy submitted for approval'' w3)))))"

text \<open>
  The first conditional of \<^verbatim>\<open>processApproval\<close> (lines 250 to 263): the new status, or
  the error thrown. The parameter \<^verbatim>\<open>comments\<close> of \<^verbatim>\<open>processApproval\<close> has the empty string
  as its default; here it is always given.
\<close>

definition newStatus_of :: "ApprovalAction \<Rightarrow> string \<Rightarrow> Policy \<Rightarrow> error + PolicyStatus" where
  "newStatus_of action role policy =
     (if action = act_rejected then Inr rejected
      else if status policy = pending_underwriter \<and> role = ''underwriter''
      then Inr pending_manager
      else if status policy = pending_manager \<and> role = ''manager'' then Inr approved
      else Inl InvalidWorkflowState)"

definition processApproval ::
  "env \<Rightarrow> uuid \<Rightarrow> uuid \<Rightarrow> ApprovalAction \<Rightarrow> string \<Rightarrow> string \<Rightarrow> world
     \<Rightarrow> (error + Policy) \<times> world" where
  "processApproval e policyId approverId action role comments w0 =
     (case getPolicy e policyId w0 of
        (Inl err, w1) \<Rightarrow> (Inl err, w1)
      | (Inr None, w1) \<Rightarrow> (Inl PolicyNotFound, w1)
      | (Inr (Some policy), w1) \<Rightarrow>
          (case newStatus_of action role policy of
             Inl err \<Rightarrow> (Inl err, w1)
           | Inr newStatus \<Rightarrow>
               (case db_update_policy e policyId
                       \<lparr>upd_customer_name = None, upd_premium_amount = None,
                        upd_product_type = None, upd_status = Some newStatus\<rparr> w1 of
                  (Inl err, w2) \<Rightarrow> (Inl (DbError err), w2)
                | (Inr data, w2) \<Rightarrow>
                    (case logApproval e policyId approverId action role comments
                            (status policy) newStatus w2 of
                       (Inl err, w3) \<Rightarrow> (Inl err, w3)
                     | (Inr u, w3) \<Rightarrow>
                         (Inr data,
                          if action = act_approved \<and> newStatus = approved
                          then notify ''policy_approved'' ''Policy fully approved'' w3
                          else if action = act_approved \<and> newStatus = pending_manager
                          then notify ''approval_required'' ''Manager action required''
                                 (notify ''policy_approved'' ''Underwriter approved policy'' w3)
                          else if action = act_rejected
                          then notify ''policy_rejected'' ''Policy rejected'' w3
                          else w3)))))"

definition getApprovalLogs ::
  "env \<Rightarrow> uuid \<Rightarrow> world
     \<Rightarrow> (error + (ApprovalLog \<times> (string \<times> UserRole) option) list) \<times> world" where
  "getApprovalLogs e policyId w0 =
     (let (data, w1) = db_select_approval_logs e policyId w0 in (Inr data, w1))"

section \<open>The policy detail view\<close>

text \<open>
  The handlers of the component \<^verbatim>\<open>PolicyDetail\<close>: what the user's click does, given the
  component's \<^verbatim>\<open>profile\<close>, its \<^verbatim>\<open>policy\<close> and the text of the comment box. A handler
  ends by calling \<^verbatim>\<open>onUpdate\<close> or by an alert; reading a field of a missing profile
  throws a \<^verbatim>\<open>TypeError\<close>, which the handler catches like any other error. The
  component's \<^verbatim>\<open>loading\<close> flag is left out, and so is \<^verbatim>\<open>handleUpdate\<close>, which reads the
  premium from the text of a form field before it calls \<^verbatim>\<open>updatePolicy\<close>.
\<close>

datatype ui_event = alert string | alert_error error | alert_type_error | onUpdate

definition role_text :: "UserRole \<Rightarrow> string" where
  "role_text r =
     (case r of creator \<Rightarrow> ''creator'' | underwriter \<Rightarrow> ''underwriter''
      | manager \<Rightarrow> ''manager'')"

definition handleSubmit ::
  "env \<Rightarrow> UserProfile option \<Rightarrow> Policy \<Rightarrow> world \<Rightarrow> ui_event \<times> world" where
  "handleSubmit e profile policy w0 =
     (case profile of
        None \<Rightarrow> (alert_type_error, w0)
      | Some pr \<Rightarrow>
          (case submitPolicy e (p_id policy) (u_id pr) w0 of
             (Inl err, w1) \<Rightarrow> (alert_error err, w1)
           | (Inr data, w1) \<Rightarrow> (onUpdate, w1)))"

definition handleApprove ::
  "env \<Rightarrow> UserProfile option \<Rightarrow> Policy \<Rightarrow> string \<Rightarrow> world \<Rightarrow> ui_event \<times> world" where
  "handleApprove e profile policy comments w0 =
     (case profile of
        None \<Rightarrow> (alert_type_error, w0)
      | Some pr \<Rightarrow>
          (case processApproval e (p_id policy) (u_id pr) act_approved
                  (role_text (u_role pr)) comments w0 of
             (Inl err, w1) \<Rightarrow> (alert_error err, w1)
           | (Inr data, w1) \<Rightarrow> (onUpdate, w1)))"

definition handleReject ::
  "env \<Rightarrow> UserProfile option \<Rightarrow> Policy \<Rightarrow> string \<Rightarrow> world \<Rightarrow> ui_event \<times> world" where
  "handleReject e profile policy comments w0 =
     (if trim comments = [] then (alert ''Please provide a reason for rejection'', w0)
      else case profile of
             None \<Rightarrow> (alert_type_error, w0)
           | Some pr \<Rightarrow>
               (case processApproval e (p_id policy) (u_id pr) act_rejected
                       (role_text (u_role pr)) comments w0 of
                  (Inl err, w1) \<Rightarrow> (alert_error err, w1)
                | (Inr data, w1) \<Rightarrow> (onUpdate, w1)))"

definition canEdit :: "UserProfile option \<Rightarrow> Policy \<Rightarrow> bool" where
  "canEdit profile policy =
     (case profile of
        None \<Rightarrow> False
      | Some pr \<Rightarrow> u_role pr = creator \<and> status policy = draft \<and> creator_id policy = u_id pr)"

definition canSubmit :: "UserProfile option \<Rightarrow> Policy \<Rightarrow> bool" where
  "canSubmit profile policy =
     (case profile of
        None \<Rightarrow> False
      | Some pr \<Rightarrow> u_role pr = creator \<and> status policy = draft \<and> creator_id policy = u_id pr)"

definition canApprove :: "UserProfile option \<Rightarrow> Policy \<Rightarrow> bool" where
  "canApprove profile policy =
     (case profile of
        None \<Rightarrow> False
      | Some pr \<Rightarrow>
          (u_role pr = underwriter \<and> status policy = pending_underwriter)
          \<or> (u_role pr = manager \<and> status policy = pending_manager))"

section \<open>Sequences of service calls\<close>

datatype operation =
  CreatePolicy PolicyData
  | UpdatePolicy uuid PolicyUpdates
  | GetPolicies "Filters option"
  | GetPolicy uuid
  | SubmitPolicy uuid uuid
  | ProcessApproval uuid uuid ApprovalAction string string
  | LogApproval uuid uuid ApprovalAction string string PolicyStatus PolicyStatus
  | GetApprovalLogs uuid

fun exec :: "env \<Rightarrow> operation \<Rightarrow> world \<Rightarrow> world" where
  "exec e (CreatePolicy policyData) w = snd (createPolicy e policyData w)"
| "exec e (UpdatePolicy policyId updates) w = snd (updatePolicy e policyId updates w)"
| "exec e (GetPolicies filters) w = snd (getPolicies e filters w)"
| "exec e (GetPolicy policyId) w = snd (getPolicy e policyId w)"
| "exec e (SubmitPolicy policyId creatorId) w = snd (submitPolicy e policyId creatorId w)"
| "exec e (ProcessApproval policyId approverId action role comments) w =
     snd (processApproval e policyId approverId action role comments w)"
| "exec e (LogApproval policyId approverId action role comments previousStatus newStatus) w =
     snd (logApproval e policyId approverId action role comments previousStatus newStatus w)"
| "exec e (GetApprovalLogs policyId) w = snd (getApprovalLogs e policyId w)"

fun run :: "(env \<times> operation) list \<Rightarrow> world \<Rightarrow> world" where
  "run [] w = w"
| "run ((e, oper) # rest) w = run rest (exec e oper w)"

text \<open>The status of the policy with a given id, when exactly one row has it.\<close>

definition status_of :: "world \<Rightarrow> uuid \<Rightarrow> PolicyStatus option" where
  "status_of w pid =
     (case filter (\<lambda>p. p_id p = pid) (policies w) of [p] \<Rightarrow> Some (status p) | _ \<Rightarrow> None)"

text \<open>
  The changes of status that calls of the service are found to make
  (\<open>exec_status_step\<close> below): the two approvals, and a rejection out of either pending
  state or out of \<^verbatim>\<open>draft\<close>.
\<close>

fun status_step :: "PolicyStatus \<Rightarrow> PolicyStatus \<Rightarrow> bool" where
  "status_step pending_underwriter pending_manager = True"
| "status_step pending_manager approved = True"
| "status_step pending_underwriter rejected = True"
| "status_step pending_manager rejected = True"
| "status_step draft rejected = True"
| "status_step _ _ = False"

section \<open>Example data\<close>

text \<open>
  An office of three users, one of each role, and a policy that the creator \<open>alice\<close>
  has written, in a status of choice. \<open>session uid fresh\<close> is a call made by the
  signed-in user \<open>uid\<close>, in which the database draws the uuid \<open>fresh\<close>.
\<close>

definition alice :: UserProfile where
  "alice = \<lparr>u_id = 1, email = ''alice@example.com'', full_name = ''Alice'',
             u_role = creator, u_created_at = 0\<rparr>"

definition bob :: UserProfile where
  "bob = \<lparr>u_id = 2, email = ''bob@example.com'', full_name = ''Bob'',
           u_role = underwriter, u_created_at = 0\<rparr>"

definition carol :: UserProfile where
  "carol = \<lparr>u_id = 3, email = ''carol@example.com'', full_name = ''Carol'',
             u_role = manager, u_created_at = 0\<rparr>"

definition office :: world where
  "office = \<lparr>user_profiles = [alice, bob, carol], policies = [], approval_logs = [],
              requests = [], console = []\<rparr>"

definition session :: "uuid \<Rightarrow> uuid \<Rightarrow> env" where
  "session uid fresh = \<lparr>auth_uid = Some uid, now = 1000, uuid_v4 = fresh, math_random = 1 / 2\<rparr>"

definition dan :: PolicyData where
  "dan = \<lparr>customer_name = ''Dan Doe'', premium_amount = 5000,
           product_type = ''Auto Insurance'', creator_id = 1\<rparr>"

definition policy_10 :: "PolicyStatus \<Rightarrow> Policy" where
  "policy_10 s =
     \<lparr>customer_name = ''Dan Doe'', premium_amount = 5000, product_type = ''Auto Insurance'',
      creator_id = 1, policy_number = ''POL-000001'', fraud_check_passed = True,
      fraud_check_reason = ''All fraud checks passed successfully'', status = s,
      p_id = 10, p_created_at = 100, p_updated_at = 100\<rparr>"

definition office_with :: "PolicyStatus \<Rightarrow> world" where
  "office_with s = office\<lparr>policies := [policy_10 s]\<rparr>"

section \<open>Unfolding the model\<close>

lemmas rls_defs =
  profile_exists_def profile_has_role_def policies_select_using_def policies_insert_check_def
  creators_update_using_def creators_update_check_def underwriters_update_using_def
  underwriters_update_check_def managers_update_using_def managers_update_check_def
  policies_update_using_def policies_update_check_def approval_logs_select_using_def
  approval_logs_insert_check_def

lemmas db_defs =
  request_def db_insert_policy_def patched_def db_update_policy_def db_select_policy_def
  db_insert_approval_log_def ApprovalLogInsert.defs ApprovalLog.defs PolicyInsert.defs
  Policy.defs PolicyUpdates.defs PolicyPatch.defs numeric_10_2_def lpad_def
  generate_policy_number_def

lemmas service_defs =
  notify_def getPolicy_def logApproval_def submitPolicy_def newStatus_of_def
  processApproval_def generatePolicyNumber_def createPolicy_with_def createPolicy_def
  updatePolicy_def

lemmas example_defs =
  alice_def bob_def carol_def office_def session_def dan_def policy_10_def office_with_def

section \<open>The fraud check\<close>

lemma riskScore_sum:
  "snd (riskAssessment rnd policy) =
     (if rnd < 0.2 then 50 else 0)
     + (if premium_amount policy > 100000 then 30 else 0)
     + (if length (customer_name policy) < 3 \<or> all_digits_re (customer_name policy)
        then 40 else 0)"
  by (simp add: riskAssessment_def)

lemma digits_only_name:
  "(length s < 3 \<or> all_digits_re s) = (length s < 3 \<or> list_all is_digit s)"
  by (cases s) (auto simp: all_digits_re_def)

text \<open>
  Claim C6. Whatever the input and whatever \<^verbatim>\<open>Math.random()\<close> returns, the risk score
  \<^verbatim>\<open>performFraudCheck\<close> computes is the sum of 50 when the random flag is set (the
  random value is below 0.2), 30 when the premium exceeds 100000, and 40 when the
  customer name has fewer than three characters or consists of digits only; the check
  passes exactly when the score is below 50, that is, exactly when the flag is not set
  and the two deterministic checks are not both triggered.
\<close>

theorem performFraudCheck_risk_score:
  "snd (riskAssessment rnd policy) =
     (if rnd < 0.2 then 50 else 0)
     + (if premium_amount policy > 100000 then 30 else 0)
     + (if length (customer_name policy) < 3 \<or> list_all is_digit (customer_name policy)
        then 40 else 0)
   \<and> passed (performFraudCheck rnd policy) = (snd (riskAssessment rnd policy) < 50)
   \<and> passed (performFraudCheck rnd policy) =
       (\<not> rnd < 0.2
        \<and> \<not> (premium_amount policy > 100000
              \<and> (length (customer_name policy) < 3
                  \<or> list_all is_digit (customer_name policy))))"
proof -
  have score: "snd (riskAssessment rnd policy) =
     (if rnd < 0.2 then 50 else 0)
     + (if premium_amount policy > 100000 then 30 else 0)
     + (if length (customer_name policy) < 3 \<or> list_all is_digit (customer_name policy)
        then 40 else 0)"
    unfolding riskScore_sum digits_only_name ..
  have pass: "passed (performFraudCheck rnd policy) = (snd (riskAssessment rnd policy) < 50)"
    by (simp add: performFraudCheck_def Let_def split: prod.splits)
  have "(snd (riskAssessment rnd policy) < 50) =
       (\<not> rnd < 0.2
        \<and> \<not> (premium_amount policy > 100000
              \<and> (length (customer_name policy) < 3
                  \<or> list_all is_digit (customer_name policy))))"
    unfolding score by simp
  with score pass show ?thesis by simp
qed

theorem performFraudCheck_risk_score_witness:
  "snd (riskAssessment (1 / 2)
          \<lparr>customer_name = ''42'', premium_amount = 250000, product_type = ''Life Insurance''\<rparr>)
     = 70
   \<and> \<not> passed (performFraudCheck (1 / 2)
          \<lparr>customer_name = ''42'', premium_amount = 250000, product_type = ''Life Insurance''\<rparr>)
   \<and> snd (riskAssessment (1 / 10)
          \<lparr>customer_name = ''Dan Doe'', premium_amount = 5000, product_type = ''Auto Insurance''\<rparr>)
     = 50
   \<and> passed (performFraudCheck (1 / 2)
          \<lparr>customer_name = ''Dan Doe'', premium_amount = 250000, product_type = ''Auto Insurance''\<rparr>)"
  using performFraudCheck_risk_score [of "1 / 2"
          "\<lparr>customer_name = ''42'', premium_amount = 250000, product_type = ''Life Insurance''\<rparr>"]
        performFraudCheck_risk_score [of "1 / 10"
          "\<lparr>customer_name = ''Dan Doe'', premium_amount = 5000, product_type = ''Auto Insurance''\<rparr>"]
        performFraudCheck_risk_score [of "1 / 2"
          "\<lparr>customer_name = ''Dan Doe'', premium_amount = 250000, product_type = ''Auto Insurance''\<rparr>"]
  by (simp add: is_digit_def)

section \<open>Errors raised before any write\<close>

lemma getPolicy_world:
  "snd (getPolicy e pid w) = w\<lparr>requests := requests w @ [select_policy pid]\<rparr>"
  by (simp add: getPolicy_def db_select_policy_def request_def Let_def split: list.splits)

lemma getPolicy_missing:
  "\<not> list_ex (\<lambda>p. p_id p = pid) (policies w) \<Longrightarrow> fst (getPolicy e pid w) = Inr None"
  by (auto simp add: getPolicy_def db_select_policy_def request_def Let_def list_ex_iff
        filter_empty_conv split: list.splits)

lemma getPolicy_error:
  "getPolicy e pid w = (Inl err, w') \<Longrightarrow> \<exists>d. err = DbError d"
  by (auto simp: getPolicy_def split: prod.splits sum.splits)

lemma logApproval_error:
  "logApproval e pid a act r c s s' w = (Inl err, w') \<Longrightarrow> \<exists>d. err = DbError d"
  by (auto simp: logApproval_def split: prod.splits sum.splits)

text \<open>
  Claim C10. When no policy has the given id, \<^verbatim>\<open>submitPolicy\<close> and \<^verbatim>\<open>processApproval\<close>
  both throw "Policy not found", and when \<^verbatim>\<open>processApproval\<close> throws "Invalid approval
  workflow state" it does so likewise before any update or insert is requested: in each
  case the only request made is the one that reads the policy, and the tables (every
  policy's status, the approval log) are as they were.
\<close>

theorem not_found_and_invalid_state_leave_world:
  "(\<not> list_ex (\<lambda>p. p_id p = policyId) (policies w) \<longrightarrow>
      submitPolicy e policyId creatorId w
        = (Inl PolicyNotFound, w\<lparr>requests := requests w @ [select_policy policyId]\<rparr>)
      \<and> processApproval e policyId approverId action role comments w
        = (Inl PolicyNotFound, w\<lparr>requests := requests w @ [select_policy policyId]\<rparr>))
   \<and> (fst (processApproval e policyId approverId action role comments w)
        = Inl InvalidWorkflowState \<longrightarrow>
      snd (processApproval e policyId approverId action role comments w)
        = w\<lparr>requests := requests w @ [select_policy policyId]\<rparr>)"
proof (intro conjI impI)
  assume missing: "\<not> list_ex (\<lambda>p. p_id p = policyId) (policies w)"
  obtain r w1 where g: "getPolicy e policyId w = (r, w1)" by (cases "getPolicy e policyId w")
  from getPolicy_missing[OF missing, of e] g have r: "r = Inr None" by simp
  from getPolicy_world[of e policyId w] g
  have w1: "w1 = w\<lparr>requests := requests w @ [select_policy policyId]\<rparr>" by simp
  show "submitPolicy e policyId creatorId w
        = (Inl PolicyNotFound, w\<lparr>requests := requests w @ [select_policy policyId]\<rparr>)"
    by (simp add: submitPolicy_def g r w1)
  show "processApproval e policyId approverId action role comments w
        = (Inl PolicyNotFound, w\<lparr>requests := requests w @ [select_policy policyId]\<rparr>)"
    by (simp add: processApproval_def g r w1)
next
  assume inv: "fst (processApproval e policyId approverId action role comments w)
        = Inl InvalidWorkflowState"
  obtain r w1 where g: "getPolicy e policyId w = (r, w1)" by (cases "getPolicy e policyId w")
  from getPolicy_world[of e policyId w] g
  have w1: "w1 = w\<lparr>requests := requests w @ [select_policy policyId]\<rparr>" by simp
  have rerr: "\<And>err. r = Inl err \<Longrightarrow> \<exists>d. err = DbError d"
    using g getPolicy_error by blast
  show "snd (processApproval e policyId approverId action role comments w)
        = w\<lparr>requests := requests w @ [select_policy policyId]\<rparr>"
    using inv rerr
    by (auto simp add: processApproval_def g w1 split: sum.splits option.splits prod.splits
          dest!: logApproval_error)
qed

theorem not_found_and_invalid_state_leave_world_witness:
  "\<not> list_ex (\<lambda>p. p_id p = 10) (policies office)
   \<and> submitPolicy (session 1 11) 10 1 office
       = (Inl PolicyNotFound, office\<lparr>requests := [select_policy 10]\<rparr>)
   \<and> processApproval (session 2 11) 10 2 act_rejected ''underwriter'' ''no'' office
       = (Inl PolicyNotFound, office\<lparr>requests := [select_policy 10]\<rparr>)
   \<and> fst (processApproval (session 2 11) 10 2 act_approved ''underwriter'' [] (office_with draft))
       = Inl InvalidWorkflowState
   \<and> snd (processApproval (session 2 11) 10 2 act_approved ''underwriter'' [] (office_with draft))
       = office_with draft\<lparr>requests := [select_policy 10]\<rparr>"
proof -
  have a: "\<not> list_ex (\<lambda>p. p_id p = 10) (policies office)"
    by (simp add: office_def)
  have b: "fst (processApproval (session 2 11) 10 2 act_approved ''underwriter'' []
                 (office_with draft)) = Inl InvalidWorkflowState"
    by (simp add: service_defs db_defs rls_defs example_defs)
  have c: "requests office = []" "requests (office_with draft) = []"
    by (simp_all add: example_defs)
  show ?thesis
    using a b c
      not_found_and_invalid_state_leave_world
        [of 10 office "session 1 11" 1 2 act_rejected "''underwriter''" "''no''"]
      not_found_and_invalid_state_leave_world
        [of 10 office "session 2 11" 1 2 act_rejected "''underwriter''" "''no''"]
      not_found_and_invalid_state_leave_world
        [of 10 "office_with draft" "session 2 11" 1 2 act_approved "''underwriter''" "[]"]
    by simp
qed

section \<open>What the requests do\<close>

lemma rls_request [simp]:
  "profile_exists (request r w) e = profile_exists w e"
  "profile_has_role (request r w) e x = profile_has_role w e x"
  "policies_select_using (request r w) e p = policies_select_using w e p"
  "policies_update_using (request r w) e p = policies_update_using w e p"
  "policies (request r w) = policies w"
  "approval_logs (request r w) = approval_logs w"
  "user_profiles (request r w) = user_profiles w"
  by (simp_all add: rls_defs request_def)

lemma patched_id [simp]: "p_id (patched e patch amount p) = p_id p"
  by (simp add: patched_def)

lemma patched_status [simp]:
  "status (patched e patch amount p) = (case upd_status patch of None \<Rightarrow> status p | Some s \<Rightarrow> s)"
  by (simp add: patched_def)

lemma filter_id_map:
  "(\<And>q. p_id (f q) = p_id q) \<Longrightarrow>
   filter (\<lambda>q. p_id q = pid) (map f qs) = map f (filter (\<lambda>q. p_id q = pid) qs)"
  by (induction qs) auto

lemma filter_conj_single:
  "filter (\<lambda>q. A q \<and> B q) xs = [p] \<Longrightarrow> filter A xs = [p'] \<Longrightarrow> p' = p \<and> B p"
proof -
  assume a: "filter (\<lambda>q. A q \<and> B q) xs = [p]" and b: "filter A xs = [p']"
  have "filter (\<lambda>q. A q \<and> B q) xs = filter B (filter A xs)" by (induction xs) auto
  with a b have "filter B [p'] = [p]" by simp
  then show ?thesis by (auto split: if_splits)
qed

lemma getPolicy_Some:
  assumes "getPolicy e pid w = (Inr (Some policy), w1)"
  shows "filter (\<lambda>p. p_id p = pid) (policies w) = [policy]"
    and "profile_exists w e"
    and "w1 = request (select_policy pid) w"
proof -
  from assms have f: "filter (\<lambda>p. p_id p = pid \<and> policies_select_using w e p) (policies w) = [policy]"
    and w1: "w1 = request (select_policy pid) w"
    by (auto simp: getPolicy_def db_select_policy_def Let_def split: list.splits)
  show "w1 = request (select_policy pid) w" by (rule w1)
  show pe: "profile_exists w e"
  proof (rule ccontr)
    assume "\<not> profile_exists w e"
    then have "filter (\<lambda>p. p_id p = pid \<and> policies_select_using w e p) (policies w) = []"
      by (simp add: policies_select_using_def)
    with f show False by simp
  qed
  from pe f show "filter (\<lambda>p. p_id p = pid) (policies w) = [policy]"
    by (simp add: policies_select_using_def)
qed

lemma db_update_policy_Inr:
  assumes "db_update_policy e pid patch w = (Inr row, w')"
  shows "\<exists>p amount.
           filter (\<lambda>q. p_id q = pid \<and> policies_select_using w e q \<and> policies_update_using w e q)
             (policies w) = [p]
           \<and> row = patched e patch amount p
           \<and> policies_update_check e row
           \<and> w' = (request (update_policy pid) w)
                \<lparr>policies :=
                   map (\<lambda>q. if p_id q = pid \<and> policies_select_using w e q
                                 \<and> policies_update_using w e q
                             then patched e patch amount q else q) (policies w)\<rparr>"
  using assms
  by (auto simp: db_update_policy_def Let_def
           split: option.splits if_splits list.splits)

lemma db_update_policy_Inl:
  "db_update_policy e pid patch w = (Inl err, w') \<Longrightarrow> w' = request (update_policy pid) w"
  by (auto simp: db_update_policy_def Let_def split: option.splits if_splits list.splits)

lemma db_update_policy_single:
  assumes u: "db_update_policy e pid patch w = (Inr row, w')"
      and one: "filter (\<lambda>q. p_id q = pid) (policies w) = [p]"
  shows "filter (\<lambda>q. p_id q = pid) (policies w') = [row]"
    and "policies_update_using w e p"
    and "policies_update_check e row"
    and "status row = (case upd_status patch of None \<Rightarrow> status p | Some s \<Rightarrow> s)"
    and "approval_logs w' = approval_logs w"
    and "user_profiles w' = user_profiles w"
proof -
  from db_update_policy_Inr[OF u] obtain p0 amount where
    f: "filter (\<lambda>q. p_id q = pid \<and> (policies_select_using w e q \<and> policies_update_using w e q))
             (policies w) = [p0]"
    and row: "row = patched e patch amount p0"
    and chk: "policies_update_check e row"
    and w': "w' = (request (update_policy pid) w)
                \<lparr>policies :=
                   map (\<lambda>q. if p_id q = pid \<and> policies_select_using w e q
                                 \<and> policies_update_using w e q
                             then patched e patch amount q else q) (policies w)\<rparr>"
    by auto
  from filter_conj_single[OF f one] have p0: "p0 = p"
    and t: "policies_select_using w e p \<and> policies_update_using w e p" by auto
  show "policies_update_using w e p" using t by simp
  show "policies_update_check e row" by (rule chk)
  show "status row = (case upd_status patch of None \<Rightarrow> status p | Some s \<Rightarrow> s)"
    by (simp add: row p0)
  show "approval_logs w' = approval_logs w" "user_profiles w' = user_profiles w"
    by (simp_all add: w')
  have "filter (\<lambda>q. p_id q = pid) (policies w') =
        map (\<lambda>q. if p_id q = pid \<and> policies_select_using w e q \<and> policies_update_using w e q
                  then patched e patch amount q else q) (filter (\<lambda>q. p_id q = pid) (policies w))"
    unfolding w' by (simp add: filter_id_map)
  also have "\<dots> = [row]" using one t one
    by (simp add: row p0) (metis (mono_tags, lifting) filter_eq_ConsD list.set_intros(1) mem_Collect_eq set_filter)
  finally show "filter (\<lambda>q. p_id q = pid) (policies w') = [row]" .
qed

lemma db_insert_policy_Inr:
  assumes "db_insert_policy e payload w = (Inr row, w')"
  shows "\<exists>amount. numeric_10_2 (premium_amount payload) = Some amount
           \<and> row = PolicyInsert.extend (payload\<lparr>premium_amount := amount\<rparr>)
                      (Policy.fields (uuid_v4 e) (now e) (now e))
           \<and> w' = (request insert_policy w)\<lparr>policies := policies w @ [row]\<rparr>"
  using assms
  by (auto simp: db_insert_policy_def Let_def split: option.splits if_splits)

lemma db_insert_policy_Inl:
  "db_insert_policy e payload w = (Inl err, w') \<Longrightarrow> w' = request insert_policy w"
  by (auto simp: db_insert_policy_def Let_def split: option.splits if_splits)

section \<open>Outcomes of the service calls\<close>

lemma logApproval_Inr:
  assumes "logApproval e pid a act r c s s' w = (Inr u, w')"
  shows "approval_logs w' = approval_logs w @
           [\<lparr>policy_id = pid, approver_id = a, log_action = act, log_role = r, log_comments = c,
             previous_status = s, new_status = s', l_id = uuid_v4 e, l_created_at = now e\<rparr>]"
    and "policies w' = policies w"
    and "user_profiles w' = user_profiles w"
  using assms
  by (auto simp: logApproval_def db_insert_approval_log_def Let_def request_def
        ApprovalLogInsert.defs ApprovalLog.defs split: if_splits)

lemma logApproval_Inl:
  "logApproval e pid a act r c s s' w = (Inl err, w') \<Longrightarrow> w' = request insert_approval_log w"
  by (auto simp: logApproval_def db_insert_approval_log_def Let_def split: if_splits)

lemma notify_tables [simp]:
  "policies (notify t m w) = policies w"
  "approval_logs (notify t m w) = approval_logs w"
  "user_profiles (notify t m w) = user_profiles w"
  by (simp_all add: notify_def)

lemma status_of_single:
  "filter (\<lambda>q. p_id q = pid) (policies w) = [p] \<Longrightarrow> status_of w pid = Some (status p)"
  by (simp add: status_of_def)

text \<open>
  The update that \<^verbatim>\<open>submitPolicy\<close> requests is refused for every caller and every state
  of the tables: no \<^verbatim>\<open>WITH CHECK\<close> expression of the table admits a row in status
  \<^verbatim>\<open>pending_underwriter\<close>.
\<close>

lemma submit_update_refused:
  "db_update_policy e pid
     \<lparr>upd_customer_name = None, upd_premium_amount = None, upd_product_type = None,
      upd_status = Some pending_underwriter\<rparr> w \<noteq> (Inr row, w')"
proof
  assume u: "db_update_policy e pid
     \<lparr>upd_customer_name = None, upd_premium_amount = None, upd_product_type = None,
      upd_status = Some pending_underwriter\<rparr> w = (Inr row, w')"
  from db_update_policy_Inr[OF u] obtain p amount where
    "row = patched e \<lparr>upd_customer_name = None, upd_premium_amount = None, upd_product_type = None,
      upd_status = Some pending_underwriter\<rparr> amount p" and "policies_update_check e row"
    by blast
  then show False
    by (simp add: policies_update_check_def creators_update_check_def
          underwriters_update_check_def managers_update_check_def)
qed

lemma submitPolicy_never_succeeds:
  "fst (submitPolicy e policyId creatorId w) \<noteq> Inr data"
  by (auto simp: submitPolicy_def submit_update_refused
        split: prod.splits sum.splits option.splits)

lemma processApproval_Inr:
  assumes ok: "processApproval e policyId approverId action role comments w = (Inr data, w')"
  shows "\<exists>policy newStatus.
           filter (\<lambda>q. p_id q = policyId) (policies w) = [policy]
           \<and> newStatus_of action role policy = Inr newStatus
           \<and> policies_update_using w e policy
           \<and> policies_update_check e data
           \<and> status data = newStatus
           \<and> filter (\<lambda>q. p_id q = policyId) (policies w') = [data]
           \<and> approval_logs w' = approval_logs w @
                [\<lparr>policy_id = policyId, approver_id = approverId, log_action = action,
                  log_role = role, log_comments = comments, previous_status = status policy,
                  new_status = newStatus, l_id = uuid_v4 e, l_created_at = now e\<rparr>]"
proof -
  from ok obtain policy w1 newStatus w2 u w3 where
    g: "getPolicy e policyId w = (Inr (Some policy), w1)"
    and n: "newStatus_of action role policy = Inr newStatus"
    and up: "db_update_policy e policyId
               \<lparr>upd_customer_name = None, upd_premium_amount = None, upd_product_type = None,
                upd_status = Some newStatus\<rparr> w1 = (Inr data, w2)"
    and l: "logApproval e policyId approverId action role comments (status policy) newStatus w2
              = (Inr u, w3)"
    and w': "policies w' = policies w3 \<and> approval_logs w' = approval_logs w3"
    by (auto simp: processApproval_def split: prod.splits sum.splits option.splits if_splits)
  note gp = getPolicy_Some[OF g]
  from gp(1) gp(3) have one: "filter (\<lambda>q. p_id q = policyId) (policies w1) = [policy]" by simp
  note us = db_update_policy_single[OF up one]
  note ls = logApproval_Inr[OF l]
  show ?thesis
    apply (rule exI[of _ policy], rule exI[of _ newStatus])
    using gp us ls n w' by (simp add: rls_request)
qed

lemma has_role_exists: "profile_has_role w e r \<Longrightarrow> profile_exists w e"
  by (auto simp: profile_has_role_def profile_exists_def list_ex_iff)

lemma update_using_exists: "policies_update_using w e p \<Longrightarrow> profile_exists w e"
  by (auto simp: policies_update_using_def creators_update_using_def
        underwriters_update_using_def managers_update_using_def dest: has_role_exists)

lemma newStatus_of_check:
  "newStatus_of action role policy = Inr newStatus \<Longrightarrow>
   newStatus = pending_manager \<or> newStatus = approved \<or> newStatus = rejected"
  by (auto simp: newStatus_of_def split: if_splits)

lemma single_id: "filter (\<lambda>q. p_id q = pid) qs = [p] \<Longrightarrow> p_id p = pid"
proof -
  assume "filter (\<lambda>q. p_id q = pid) qs = [p]"
  then have "p \<in> set (filter (\<lambda>q. p_id q = pid) qs)" by simp
  then show ?thesis by simp
qed

lemma db_update_status_succeeds:
  assumes one: "filter (\<lambda>q. p_id q = pid) (policies w) = [p]"
      and prem: "premium_amount p > 0"
      and use: "policies_update_using w e p"
      and new: "s = pending_manager \<or> s = approved \<or> s = rejected"
  shows "db_update_policy e pid
           \<lparr>upd_customer_name = None, upd_premium_amount = None, upd_product_type = None,
            upd_status = Some s\<rparr> w
         = (Inr (p\<lparr>status := s, p_updated_at := now e\<rparr>),
            (request (update_policy pid) w)
              \<lparr>policies := map (\<lambda>q. if p_id q = pid then q\<lparr>status := s, p_updated_at := now e\<rparr>
                                    else q) (policies w)\<rparr>)"
proof -
  have pe: "profile_exists w e" using use by (rule update_using_exists)
  have pid: "p_id p = pid" using one by (rule single_id)
  have tgt: "\<And>q. q \<in> set (policies w) \<Longrightarrow>
      (p_id q = pid \<and> policies_select_using w e q \<and> policies_update_using w e q) = (p_id q = pid)"
  proof -
    fix q assume q: "q \<in> set (policies w)"
    show "(p_id q = pid \<and> policies_select_using w e q \<and> policies_update_using w e q) = (p_id q = pid)"
    proof (cases "p_id q = pid")
      case True
      with q have "q \<in> set (filter (\<lambda>q. p_id q = pid) (policies w))" by simp
      with one have "q = p" by simp
      with True use pe show ?thesis by (simp add: policies_select_using_def)
    qed simp
  qed
  have f: "filter (\<lambda>q. p_id q = pid \<and> policies_select_using w e q \<and> policies_update_using w e q)
             (policies w) = filter (\<lambda>q. p_id q = pid) (policies w)"
    by (rule filter_cong[OF refl]) (use tgt in blast)
  have m: "map (\<lambda>q. if p_id q = pid \<and> policies_select_using w e q \<and> policies_update_using w e q
                     then patched e \<lparr>upd_customer_name = None, upd_premium_amount = None,
                            upd_product_type = None, upd_status = Some s\<rparr> None q else q)
             (policies w)
         = map (\<lambda>q. if p_id q = pid then q\<lparr>status := s, p_updated_at := now e\<rparr> else q) (policies w)"
    by (rule map_cong[OF refl]) (use tgt in \<open>auto simp: patched_def\<close>)
  have row: "patched e \<lparr>upd_customer_name = None, upd_premium_amount = None,
                            upd_product_type = None, upd_status = Some s\<rparr> None p
             = p\<lparr>status := s, p_updated_at := now e\<rparr>"
    by (simp add: patched_def)
  have chk: "policies_update_check e (p\<lparr>status := s, p_updated_at := now e\<rparr>)"
    using new by (auto simp: policies_update_check_def underwriters_update_check_def
                    managers_update_check_def)
  have sel: "policies_select_using w e (p\<lparr>status := s, p_updated_at := now e\<rparr>)"
    using pe by (simp add: policies_select_using_def)
  show ?thesis
    by (simp add: db_update_policy_def Let_def f one m row chk sel prem)
qed

lemma logApproval_succeeds:
  assumes "auth_uid e = Some a"
      and "\<not> list_ex (\<lambda>l. l_id l = uuid_v4 e) (approval_logs w)"
      and "list_ex (\<lambda>p. p_id p = pid) (policies w)"
      and "list_ex (\<lambda>u. u_id u = a) (user_profiles w)"
  shows "logApproval e pid a act r c s s' w
         = (Inr (), (request insert_approval_log w)
              \<lparr>approval_logs := approval_logs w @
                 [\<lparr>policy_id = pid, approver_id = a, log_action = act, log_role = r,
                   log_comments = c, previous_status = s, new_status = s', l_id = uuid_v4 e,
                   l_created_at = now e\<rparr>]\<rparr>)"
  using assms
  by (simp add: logApproval_def db_insert_approval_log_def Let_def approval_logs_insert_check_def
        ApprovalLogInsert.defs ApprovalLog.defs)

lemma getPolicy_single:
  assumes "filter (\<lambda>q. p_id q = pid) (policies w) = [p]" and "profile_exists w e"
  shows "getPolicy e pid w = (Inr (Some p), request (select_policy pid) w)"
  using assms
  by (simp add: getPolicy_def db_select_policy_def Let_def policies_select_using_def)

lemma filter_single_ex:
  "filter (\<lambda>q. p_id q = pid) qs = [p] \<Longrightarrow> list_ex (\<lambda>q. p_id q = pid) qs"
proof -
  assume a: "filter (\<lambda>q. p_id q = pid) qs = [p]"
  then have "p \<in> set (filter (\<lambda>q. p_id q = pid) qs)" by simp
  then have "p \<in> set qs \<and> p_id p = pid" by simp
  then show ?thesis unfolding list_ex_iff by blast
qed

lemma processApproval_succeeds:
  assumes one: "filter (\<lambda>q. p_id q = policyId) (policies w) = [policy]"
      and prem: "premium_amount policy > 0"
      and uid: "auth_uid e = Some approverId"
      and fresh: "\<not> list_ex (\<lambda>l. l_id l = uuid_v4 e) (approval_logs w)"
      and use: "policies_update_using w e policy"
      and new: "newStatus_of action role policy = Inr newStatus"
  shows "fst (processApproval e policyId approverId action role comments w)
           = Inr (policy\<lparr>status := newStatus, p_updated_at := now e\<rparr>)"
    and "status_of (snd (processApproval e policyId approverId action role comments w)) policyId
           = Some newStatus"
proof -
  have pe: "profile_exists w e" using use by (rule update_using_exists)
  define w1 where "w1 = request (select_policy policyId) w"
  define row where "row = policy\<lparr>status := newStatus, p_updated_at := now e\<rparr>"
  define w2 where "w2 = (request (update_policy policyId) w1)
              \<lparr>policies := map (\<lambda>q. if p_id q = policyId
                                    then q\<lparr>status := newStatus, p_updated_at := now e\<rparr>
                                    else q) (policies w1)\<rparr>"
  have g: "getPolicy e policyId w = (Inr (Some policy), w1)"
    unfolding w1_def using one pe by (rule getPolicy_single)
  have one1: "filter (\<lambda>q. p_id q = policyId) (policies w1) = [policy]"
    using one by (simp add: w1_def)
  have use1: "policies_update_using w1 e policy"
    using use by (simp add: w1_def)
  have up: "db_update_policy e policyId
           \<lparr>upd_customer_name = None, upd_premium_amount = None, upd_product_type = None,
            upd_status = Some newStatus\<rparr> w1 = (Inr row, w2)"
    unfolding row_def w2_def
    by (rule db_update_status_succeeds[OF one1 prem use1 newStatus_of_check[OF new]])
  have pid: "p_id policy = policyId" using one by (rule single_id)
  have "filter (\<lambda>q. p_id q = policyId) (policies w2)
        = map (\<lambda>q. if p_id q = policyId then q\<lparr>status := newStatus, p_updated_at := now e\<rparr>
                    else q) (filter (\<lambda>q. p_id q = policyId) (policies w1))"
    unfolding w2_def by (simp add: filter_id_map)
  then have one2: "filter (\<lambda>q. p_id q = policyId) (policies w2) = [row]"
    unfolding one1 row_def by (simp add: pid)
  have ex2: "list_ex (\<lambda>p. p_id p = policyId) (policies w2)"
    using one2 by (rule filter_single_ex)
  have exu: "list_ex (\<lambda>u. u_id u = approverId) (user_profiles w2)"
    using pe uid by (auto simp: profile_exists_def list_ex_iff w2_def w1_def)
  have fresh2: "\<not> list_ex (\<lambda>l. l_id l = uuid_v4 e) (approval_logs w2)"
    using fresh by (simp add: w2_def w1_def)
  note l = logApproval_succeeds[OF uid fresh2 ex2 exu, of action role comments "status policy" newStatus]
  have res: "fst (processApproval e policyId approverId action role comments w) = Inr row"
    "policies (snd (processApproval e policyId approverId action role comments w)) = policies w2"
    by (simp_all add: processApproval_def g new up l)
  show "fst (processApproval e policyId approverId action role comments w)
           = Inr (policy\<lparr>status := newStatus, p_updated_at := now e\<rparr>)"
    using res(1) by (simp add: row_def)
  show "status_of (snd (processApproval e policyId approverId action role comments w)) policyId
           = Some newStatus"
    unfolding status_of_def res(2) one2 by (simp add: row_def)
qed

lemma stored_profile_role:
  "pr \<in> set (user_profiles w) \<Longrightarrow> auth_uid e = Some (u_id pr) \<Longrightarrow>
   profile_has_role w e (u_role pr)"
  by (auto simp: profile_has_role_def list_ex_iff)

section \<open>The transition table\<close>

text \<open>
  Claim C5, first row of the table. The creator \<open>alice\<close> submits the draft that is
  theirs, as the detail view offers (\<open>canSubmit\<close>): the update to \<^verbatim>\<open>pending_underwriter\<close> passes the
  \<^verbatim>\<open>USING\<close> expression of "Creators can update own draft policies", but the new row
  passes no \<^verbatim>\<open>WITH CHECK\<close> of the table (the creators' one wants \<^verbatim>\<open>status = 'draft'\<close>,
  the approvers' ones want other statuses), so the database refuses it, the service
  throws, and the policy stays a draft.
\<close>

theorem submitPolicy_refused_on_creators_draft:
  "canSubmit (Some alice) (policy_10 draft)
   \<and> submitPolicy (session 1 11) 10 1 (office_with draft)
       = (Inl (DbError rls_violation),
          office_with draft\<lparr>requests := [select_policy 10, update_policy 10]\<rparr>)
   \<and> status_of (snd (submitPolicy (session 1 11) 10 1 (office_with draft))) 10 = Some draft"
  by code_simp

text \<open>
  The four rows of the transition table that are the approvers': for the stored profile
  \<open>pr\<close> of the signed-in user and the stored policy \<open>p\<close>, each call returns normally and
  leaves the policy in the status the table lists.
\<close>

lemma approvers_rows:
  assumes one: "filter (\<lambda>q. p_id q = policyId) (policies w) = [p]"
      and prem: "0 < premium_amount p"
      and stored: "pr \<in> set (user_profiles w)"
      and uid: "auth_uid e = Some (u_id pr)"
      and fresh: "\<not> list_ex (\<lambda>l. l_id l = uuid_v4 e) (approval_logs w)"
  shows "status p = pending_underwriter \<Longrightarrow> u_role pr = underwriter \<Longrightarrow>
           status_of (snd (processApproval e policyId (u_id pr) act_approved ''underwriter''
                             comments w)) policyId = Some pending_manager"
    and "status p = pending_underwriter \<Longrightarrow> u_role pr = underwriter \<Longrightarrow>
           status_of (snd (processApproval e policyId (u_id pr) act_rejected ''underwriter''
                             comments w)) policyId = Some rejected"
    and "status p = pending_manager \<Longrightarrow> u_role pr = manager \<Longrightarrow>
           status_of (snd (processApproval e policyId (u_id pr) act_approved ''manager''
                             comments w)) policyId = Some approved"
    and "status p = pending_manager \<Longrightarrow> u_role pr = manager \<Longrightarrow>
           status_of (snd (processApproval e policyId (u_id pr) act_rejected ''manager''
                             comments w)) policyId = Some rejected"
proof -
  have has: "profile_has_role w e (u_role pr)"
    using stored uid by (rule stored_profile_role)
  {
    fix action role newStatus
    assume use: "policies_update_using w e p"
       and new: "newStatus_of action role p = Inr newStatus"
    have "status_of (snd (processApproval e policyId (u_id pr) action role comments w)) policyId
            = Some newStatus"
      by (rule processApproval_succeeds(2)[OF one prem uid fresh use new])
  }
  note row = this
  {
    assume "status p = pending_underwriter" "u_role pr = underwriter"
    with has have "policies_update_using w e p"
      by (simp add: policies_update_using_def underwriters_update_using_def)
  }
  note uw = this
  {
    assume "status p = pending_manager" "u_role pr = manager"
    with has have "policies_update_using w e p"
      by (simp add: policies_update_using_def managers_update_using_def)
  }
  note mg = this
  show "status p = pending_underwriter \<Longrightarrow> u_role pr = underwriter \<Longrightarrow>
           status_of (snd (processApproval e policyId (u_id pr) act_approved ''underwriter''
                             comments w)) policyId = Some pending_manager"
    by (rule row[OF uw]) (simp_all add: newStatus_of_def)
  show "status p = pending_underwriter \<Longrightarrow> u_role pr = underwriter \<Longrightarrow>
           status_of (snd (processApproval e policyId (u_id pr) act_rejected ''underwriter''
                             comments w)) policyId = Some rejected"
    by (rule row[OF uw]) (simp_all add: newStatus_of_def)
  show "status p = pending_manager \<Longrightarrow> u_role pr = manager \<Longrightarrow>
           status_of (snd (processApproval e policyId (u_id pr) act_approved ''manager''
                             comments w)) policyId = Some approved"
    by (rule row[OF mg]) (simp_all add: newStatus_of_def)
  show "status p = pending_manager \<Longrightarrow> u_role pr = manager \<Longrightarrow>
           status_of (snd (processApproval e policyId (u_id pr) act_rejected ''manager''
                             comments w)) policyId = Some rejected"
    by (rule row[OF mg]) (simp_all add: newStatus_of_def)
qed

text \<open>
  Claim C1, the triple draft, creator, reject, which the table does not list. The creator
  \<open>alice\<close> calls \<^verbatim>\<open>processApproval\<close> with the action \<^verbatim>\<open>rejected\<close> on the draft that is theirs: the
  service tests neither status nor role on this branch, the update passes the creators'
  \<^verbatim>\<open>USING\<close> and the approvers' \<^verbatim>\<open>WITH CHECK\<close>, and the call returns the policy with
  status \<^verbatim>\<open>rejected\<close>.
\<close>

theorem processApproval_rejects_creators_draft:
  "status_of (office_with draft) 10 = Some draft
   \<and> fst (processApproval (session 1 11) 10 1 act_rejected ''creator'' ''no''
            (office_with draft))
       = Inr (policy_10 rejected\<lparr>p_updated_at := 1000\<rparr>)
   \<and> status_of (snd (processApproval (session 1 11) 10 1 act_rejected ''creator'' ''no''
                        (office_with draft))) 10
       = Some rejected"
  by code_simp

text \<open>
  On the reject branch the argument \<^verbatim>\<open>role\<close> is compared with nothing and only written to
  the log: the underwriter \<open>bob\<close> may name any role in a rejection.
\<close>

lemma processApproval_role_argument_on_reject_example:
  "fst (processApproval (session 2 11) 10 2 act_rejected ''manager'' ''no''
          (office_with pending_underwriter))
     = Inr (policy_10 rejected\<lparr>p_updated_at := 1000\<rparr>)
   \<and> map log_role (approval_logs
         (snd (processApproval (session 2 11) 10 2 act_rejected ''manager'' ''no''
                 (office_with pending_underwriter))))
     = [''manager'']"
  by code_simp

section \<open>Status changes\<close>

lemma status_of_eq:
  "(status_of w pid = Some s) = (map status (filter (\<lambda>q. p_id q = pid) (policies w)) = [s])"
  by (auto simp: status_of_def split: list.splits)

lemma filter_map_guarded:
  assumes "\<And>q. p_id (f q) = p_id q"
  shows "filter (\<lambda>q. p_id q = pid) (map (\<lambda>q. if T q then f q else q) qs)
         = map (\<lambda>q. if T q then f q else q) (filter (\<lambda>q. p_id q = pid) qs)"
  using assms by (induction qs) auto

lemma db_update_policy_statuses:
  assumes u: "db_update_policy e pid patch w = (r, w')"
      and other: "pid' \<noteq> pid \<or> upd_status patch = None"
  shows "map status (filter (\<lambda>q. p_id q = pid') (policies w'))
         = map status (filter (\<lambda>q. p_id q = pid') (policies w))"
proof (cases r)
  case (Inl err)
  with u have "w' = request (update_policy pid) w" by (auto dest: db_update_policy_Inl)
  then show ?thesis by simp
next
  case (Inr row)
  with u have u': "db_update_policy e pid patch w = (Inr row, w')" by simp
  from db_update_policy_Inr[OF u'] obtain p amount where
    "w' = (request (update_policy pid) w)
            \<lparr>policies := map (\<lambda>q. if p_id q = pid \<and> policies_select_using w e q
                                        \<and> policies_update_using w e q
                                    then patched e patch amount q else q) (policies w)\<rparr>"
    by blast
  then have w': "policies w' = map (\<lambda>q. if p_id q = pid \<and> policies_select_using w e q
                                 \<and> policies_update_using w e q
                             then patched e patch amount q else q) (policies w)"
    by simp
  have "map status (map (\<lambda>q. if p_id q = pid \<and> policies_select_using w e q
                                 \<and> policies_update_using w e q
                             then patched e patch amount q else q)
                      (filter (\<lambda>q. p_id q = pid') (policies w)))
        = map status (filter (\<lambda>q. p_id q = pid') (policies w))"
    using other by (auto split: option.splits)
  then show ?thesis
    unfolding w' by (simp add: filter_map_guarded)
qed

lemma db_insert_policy_statuses:
  assumes i: "db_insert_policy e payload w = (r, w')"
      and some: "filter (\<lambda>q. p_id q = pid) (policies w) \<noteq> []"
  shows "filter (\<lambda>q. p_id q = pid) (policies w') = filter (\<lambda>q. p_id q = pid) (policies w)"
proof (cases r)
  case (Inl err)
  with i have "w' = request insert_policy w" by (auto dest: db_insert_policy_Inl)
  then show ?thesis by simp
next
  case (Inr row)
  with i have ins: "db_insert_policy e payload w = (Inr row, w')" by simp
  from db_insert_policy_Inr[OF ins] have w': "policies w' = policies w @ [row]"
    and id: "p_id row = uuid_v4 e"
    by (auto simp: PolicyInsert.defs Policy.defs)
  from ins have "\<not> list_ex (\<lambda>p. p_id p = uuid_v4 e) (policies w)"
    by (auto simp: db_insert_policy_def Let_def list_ex_iff PolicyInsert.defs Policy.defs
          split: option.splits if_splits)
  moreover from some have "list_ex (\<lambda>p. p_id p = pid) (policies w)"
    by (auto simp: list_ex_iff filter_empty_conv)
  ultimately have "uuid_v4 e \<noteq> pid" by auto
  with w' id show ?thesis by simp
qed


lemma generatePolicyNumber_policies:
  "generatePolicyNumber e w = (n, w') \<Longrightarrow> policies w' = policies w"
  by (auto simp: generatePolicyNumber_def Let_def split: if_splits)

lemma createPolicy_statuses:
  assumes "filter (\<lambda>q. p_id q = pid) (policies w) \<noteq> []"
  shows "filter (\<lambda>q. p_id q = pid) (policies (snd (createPolicy e policyData w)))
         = filter (\<lambda>q. p_id q = pid) (policies w)"
proof -
  obtain n w1 where g: "generatePolicyNumber e w = (n, w1)"
    by (cases "generatePolicyNumber e w")
  then have p1: "policies w1 = policies w" by (rule generatePolicyNumber_policies)
  let ?fc = "performFraudCheck (math_random e) policyData"
  let ?payload = "\<lparr>customer_name = customer_name policyData,
                   premium_amount = premium_amount policyData,
                   product_type = product_type policyData,
                   creator_id = creator_id policyData,
                   policy_number = n,
                   fraud_check_passed = passed ?fc,
                   fraud_check_reason = reason ?fc,
                   status = draft\<rparr>"
  obtain r w2 where i: "db_insert_policy e ?payload w1 = (r, w2)"
    by (cases "db_insert_policy e ?payload w1")
  from assms p1 have "filter (\<lambda>q. p_id q = pid) (policies w1) \<noteq> []" by simp
  from db_insert_policy_statuses[OF i this] p1
  have "filter (\<lambda>q. p_id q = pid) (policies w2) = filter (\<lambda>q. p_id q = pid) (policies w)"
    by simp
  then show ?thesis
    by (cases r) (simp_all add: createPolicy_def createPolicy_with_def Let_def g i)
qed

lemma updatePolicy_statuses:
  "map status (filter (\<lambda>q. p_id q = pid) (policies (snd (updatePolicy e policyId updates w))))
   = map status (filter (\<lambda>q. p_id q = pid) (policies w))"
proof -
  let ?patch = "PolicyUpdates.extend updates (PolicyPatch.fields None)"
  obtain r w1 where u: "db_update_policy e policyId ?patch w = (r, w1)"
    by (cases "db_update_policy e policyId ?patch w")
  have "upd_status ?patch = None" by (simp add: PolicyUpdates.defs PolicyPatch.defs)
  with db_update_policy_statuses[OF u, of pid]
  have "map status (filter (\<lambda>q. p_id q = pid) (policies w1))
        = map status (filter (\<lambda>q. p_id q = pid) (policies w))"
    by simp
  then show ?thesis by (cases r) (simp_all add: updatePolicy_def u)
qed

lemma submitPolicy_policies:
  "policies (snd (submitPolicy e policyId creatorId w)) = policies w"
proof -
  obtain r w1 where g: "getPolicy e policyId w = (r, w1)" by (cases "getPolicy e policyId w")
  with getPolicy_world[of e policyId w] have p1: "policies w1 = policies w" by simp
  let ?patch = "\<lparr>upd_customer_name = None, upd_premium_amount = None,
                  upd_product_type = None, upd_status = Some pending_underwriter\<rparr>"
  obtain r2 w2 where u: "db_update_policy e policyId ?patch w1 = (r2, w2)"
    by (cases "db_update_policy e policyId ?patch w1")
  with submit_update_refused[of e policyId w1] obtain err where r2: "r2 = Inl err"
    by (cases r2) auto
  with u have "w2 = request (update_policy policyId) w1" by (auto dest: db_update_policy_Inl)
  with p1 have p2: "policies w2 = policies w" by simp
  show ?thesis
    using p1 p2
    by (auto simp: submitPolicy_def g u r2 split: sum.splits option.splits)
qed

lemma logApproval_policies:
  "logApproval e pid a act r c s s' w = (res, w') \<Longrightarrow> policies w' = policies w"
  by (cases res) (auto dest: logApproval_Inl logApproval_Inr(2))

lemma using_newStatus_step:
  "policies_update_using w e policy \<Longrightarrow> newStatus_of action role policy = Inr newStatus \<Longrightarrow>
   status_step (status policy) newStatus"
  by (auto simp: policies_update_using_def creators_update_using_def
        underwriters_update_using_def managers_update_using_def newStatus_of_def
        split: if_splits)

text \<open>
  What \<^verbatim>\<open>processApproval\<close> leaves in the table of policies: either nothing has changed,
  or the one update has gone through (whether or not the entry was logged afterwards).
\<close>

lemma processApproval_policies:
  "policies (snd (processApproval e policyId approverId action role comments w)) = policies w
   \<or> (\<exists>policy newStatus data w2.
         filter (\<lambda>q. p_id q = policyId) (policies w) = [policy]
         \<and> newStatus_of action role policy = Inr newStatus
         \<and> db_update_policy e policyId
              \<lparr>upd_customer_name = None, upd_premium_amount = None, upd_product_type = None,
               upd_status = Some newStatus\<rparr> (request (select_policy policyId) w)
             = (Inr data, w2)
         \<and> policies (snd (processApproval e policyId approverId action role comments w))
             = policies w2)"
proof -
  obtain r w1 where g: "getPolicy e policyId w = (r, w1)" by (cases "getPolicy e policyId w")
  with getPolicy_world[of e policyId w]
  have w1: "w1 = request (select_policy policyId) w" by (simp add: request_def)
  then have p1: "policies w1 = policies w" by simp
  show ?thesis
  proof (cases r)
    case (Inl err)
    then show ?thesis by (simp add: processApproval_def g p1)
  next
    case (Inr found)
    show ?thesis
    proof (cases found)
      case None
      with Inr show ?thesis by (simp add: processApproval_def g p1)
    next
      case (Some policy)
      with Inr g have gs: "getPolicy e policyId w = (Inr (Some policy), w1)" by simp
      note one = getPolicy_Some(1)[OF gs]
      show ?thesis
      proof (cases "newStatus_of action role policy")
        case (Inl err)
        then show ?thesis by (simp add: processApproval_def gs p1)
      next
        case ns: (Inr newStatus)
        let ?patch = "\<lparr>upd_customer_name = None, upd_premium_amount = None,
                        upd_product_type = None, upd_status = Some newStatus\<rparr>"
        obtain r2 w2 where u: "db_update_policy e policyId ?patch w1 = (r2, w2)"
          by (cases "db_update_policy e policyId ?patch w1")
        show ?thesis
        proof (cases r2)
          case (Inl err)
          with u have "w2 = request (update_policy policyId) w1"
            by (auto dest: db_update_policy_Inl)
          with p1 have "policies w2 = policies w" by simp
          with Inl show ?thesis by (simp add: processApproval_def gs ns u)
        next
          case (Inr data)
          obtain r3 w3 where
            l: "logApproval e policyId approverId action role comments (status policy)
                  newStatus w2 = (r3, w3)"
            by (cases "logApproval e policyId approverId action role comments (status policy)
                  newStatus w2")
          from logApproval_policies[OF l] have p3: "policies w3 = policies w2" .
          have "policies (snd (processApproval e policyId approverId action role comments w))
                  = policies w2"
            using Inr p3 by (cases r3) (simp_all add: processApproval_def gs ns u l)
          with one ns u Inr w1 show ?thesis by blast
        qed
      qed
    qed
  qed
qed

lemma processApproval_status_step:
  assumes s: "status_of w pid = Some s"
  shows "\<exists>s'. status_of (snd (processApproval e policyId approverId action role comments w)) pid
               = Some s' \<and> (s' = s \<or> status_step s s')"
proof -
  let ?w' = "snd (processApproval e policyId approverId action role comments w)"
  from processApproval_policies[of e policyId approverId action role comments w]
  consider (same) "policies ?w' = policies w"
    | (updated) policy newStatus data w2 where
        "filter (\<lambda>q. p_id q = policyId) (policies w) = [policy]"
        "newStatus_of action role policy = Inr newStatus"
        "db_update_policy e policyId
              \<lparr>upd_customer_name = None, upd_premium_amount = None, upd_product_type = None,
               upd_status = Some newStatus\<rparr> (request (select_policy policyId) w)
             = (Inr data, w2)"
        "policies ?w' = policies w2"
    by blast
  then show ?thesis
  proof cases
    case same
    with s show ?thesis by (simp add: status_of_def)
  next
    case updated
    let ?w1 = "request (select_policy policyId) w"
    from updated(1) have one1: "filter (\<lambda>q. p_id q = policyId) (policies ?w1) = [policy]"
      by simp
    note us = db_update_policy_single[OF updated(3) one1]
    show ?thesis
    proof (cases "pid = policyId")
      case True
      from s updated(1) True have "s = status policy" by (simp add: status_of_def)
      moreover from us(1) us(4) updated(4) True have "status_of ?w' pid = Some newStatus"
        by (simp add: status_of_def)
      moreover from us(2) updated(2) have "status_step (status policy) newStatus"
        by (auto intro: using_newStatus_step[where w = w and e = e])
      ultimately show ?thesis by simp
    next
      case False
      from db_update_policy_statuses[OF updated(3), of pid] False
      have "map status (filter (\<lambda>q. p_id q = pid) (policies w2))
            = map status (filter (\<lambda>q. p_id q = pid) (policies w))"
        by simp
      with s updated(4) have "status_of ?w' pid = Some s"
        by (simp add: status_of_eq)
      then show ?thesis by simp
    qed
  qed
qed

text \<open>
  One service call changes the status of a policy by a step of \<open>status_step\<close> or not at
  all; a sequence of calls by a sequence of such steps.
\<close>

lemma exec_status_step:
  assumes s: "status_of w pid = Some s"
  shows "\<exists>s'. status_of (exec e oper w) pid = Some s' \<and> (s' = s \<or> status_step s s')"
proof (cases oper)
  case (CreatePolicy policyData)
  from s have "filter (\<lambda>q. p_id q = pid) (policies w) \<noteq> []"
    by (auto simp: status_of_def)
  from createPolicy_statuses[OF this, of e policyData] s CreatePolicy
  show ?thesis by (simp add: status_of_def)
next
  case (UpdatePolicy policyId updates)
  with updatePolicy_statuses[of pid e policyId updates w] s
  show ?thesis by (simp add: status_of_eq)
next
  case (GetPolicies filters)
  with s show ?thesis
    by (simp add: status_of_def getPolicies_def db_select_policies_def Let_def)
next
  case (GetPolicy policyId)
  with s show ?thesis by (simp add: status_of_def getPolicy_world)
next
  case (SubmitPolicy policyId creatorId)
  with s show ?thesis by (simp add: status_of_def submitPolicy_policies)
next
  case (ProcessApproval policyId approverId action role comments)
  with processApproval_status_step[OF s] show ?thesis by simp
next
  case (LogApproval policyId approverId action role comments previousStatus newStatus)
  obtain res w' where
    l: "logApproval e policyId approverId action role comments previousStatus newStatus w
          = (res, w')"
    by (cases "logApproval e policyId approverId action role comments previousStatus newStatus w")
  from logApproval_policies[OF l] s LogApproval l show ?thesis by (simp add: status_of_def)
next
  case (GetApprovalLogs policyId)
  with s show ?thesis
    by (simp add: status_of_def getApprovalLogs_def db_select_approval_logs_def Let_def)
qed

lemma run_status_steps:
  "status_of w pid = Some s \<Longrightarrow>
   \<exists>s'. status_of (run calls w) pid = Some s' \<and> status_step\<^sup>*\<^sup>* s s'"
proof (induction calls arbitrary: w s)
  case Nil
  then show ?case by simp
next
  case (Cons c calls)
  obtain e oper where c: "c = (e, oper)" by (cases c)
  from exec_status_step[OF Cons.prems, of e oper] obtain s1 where
    s1: "status_of (exec e oper w) pid = Some s1" and st: "s1 = s \<or> status_step s s1"
    by blast
  from Cons.IH[OF s1] obtain s' where
    s': "status_of (run calls (exec e oper w)) pid = Some s'" and r: "status_step\<^sup>*\<^sup>* s1 s'"
    by blast
  from st r have "status_step\<^sup>*\<^sup>* s s'" by (auto intro: converse_rtranclp_into_rtranclp)
  with s' c show ?case by simp
qed

lemma final_status_stays:
  assumes "status_step\<^sup>*\<^sup>* s s'" and "s = approved \<or> s = rejected"
  shows "s' = s"
  using assms by (induction rule: rtranclp_induct) auto

lemma never_to_pending_underwriter:
  assumes "status_step\<^sup>*\<^sup>* s s'" and "s \<noteq> pending_underwriter"
  shows "s' \<noteq> pending_underwriter"
  using assms
proof (induction rule: rtranclp_induct)
  case base
  then show ?case by simp
next
  case (step y z)
  then show ?case by (cases y; cases z) simp_all
qed

text \<open>
  Claim C2. A sequence of two service calls, \<^verbatim>\<open>createPolicy\<close> and then \<^verbatim>\<open>processApproval\<close>
  with the action \<^verbatim>\<open>rejected\<close>, both by the creator: the policy goes from \<^verbatim>\<open>draft\<close>
  straight to \<^verbatim>\<open>rejected\<close>, a step that is neither along the chain nor out of a pending
  state.
\<close>

theorem draft_moves_to_rejected:
  "status_of (run [(session 1 10, CreatePolicy dan)] office) 10 = Some draft
   \<and> status_of (run [(session 1 10, CreatePolicy dan),
                      (session 1 11, ProcessApproval 10 1 act_rejected ''creator'' ''no'')]
                  office) 10
       = Some rejected"
  by code_simp

section \<open>The audit entry of a status change\<close>

text \<open>
  A call of \<^verbatim>\<open>processApproval\<close> that returns normally has appended exactly one entry to the
  approval log, whose \<^verbatim>\<open>previous_status\<close> is the status the policy had before the call
  and whose \<^verbatim>\<open>new_status\<close> is the status it has after the call.
\<close>

lemma processApproval_returning_logs_once:
  assumes ok: "fst (processApproval e policyId approverId action role comments w) = Inr data"
  shows "\<exists>entry. approval_logs (snd (processApproval e policyId approverId action role comments w))
                 = approval_logs w @ [entry]
         \<and> Some (previous_status entry) = status_of w policyId
         \<and> Some (new_status entry)
             = status_of (snd (processApproval e policyId approverId action role comments w))
                 policyId"
proof -
  define w' where "w' = snd (processApproval e policyId approverId action role comments w)"
  from ok have "processApproval e policyId approverId action role comments w = (Inr data, w')"
    by (simp add: w'_def prod_eq_iff)
  from processApproval_Inr[OF this] obtain policy newStatus where
    before: "filter (\<lambda>q. p_id q = policyId) (policies w) = [policy]"
    and after: "filter (\<lambda>q. p_id q = policyId) (policies w') = [data]"
    and st: "status data = newStatus"
    and logs: "approval_logs w' = approval_logs w @
                [\<lparr>policy_id = policyId, approver_id = approverId, log_action = action,
                  log_role = role, log_comments = comments, previous_status = status policy,
                  new_status = newStatus, l_id = uuid_v4 e, l_created_at = now e\<rparr>]"
    by blast
  from before have b: "status_of w policyId = Some (status policy)" by (rule status_of_single)
  from after st have a: "status_of w' policyId = Some newStatus"
    by (simp add: status_of_single)
  show ?thesis
    unfolding w'_def[symmetric] using logs a b by simp
qed

text \<open>A call that throws has appended nothing, whatever it has done before.\<close>

lemma processApproval_throwing_logs_nothing:
  assumes bad: "fst (processApproval e policyId approverId action role comments w) = Inl err"
  shows "approval_logs (snd (processApproval e policyId approverId action role comments w))
         = approval_logs w"
proof -
  obtain r w1 where g: "getPolicy e policyId w = (r, w1)" by (cases "getPolicy e policyId w")
  with getPolicy_world[of e policyId w] have l1: "approval_logs w1 = approval_logs w" by simp
  show ?thesis
  proof (cases r)
    case (Inl e1)
    then show ?thesis by (simp add: processApproval_def g l1)
  next
    case (Inr found)
    show ?thesis
    proof (cases found)
      case None
      with Inr show ?thesis by (simp add: processApproval_def g l1)
    next
      case (Some policy)
      show ?thesis
      proof (cases "newStatus_of action role policy")
        case (Inl e2)
        with Inr Some show ?thesis by (simp add: processApproval_def g l1)
      next
        case ns: (Inr newStatus)
        let ?patch = "\<lparr>upd_customer_name = None, upd_premium_amount = None,
                        upd_product_type = None, upd_status = Some newStatus\<rparr>"
        obtain r2 w2 where u: "db_update_policy e policyId ?patch w1 = (r2, w2)"
          by (cases "db_update_policy e policyId ?patch w1")
        have l2: "approval_logs w2 = approval_logs w"
        proof (cases r2)
          case (Inl e3)
          with u have "w2 = request (update_policy policyId) w1"
            by (auto dest: db_update_policy_Inl)
          with l1 show ?thesis by simp
        next
          case (Inr row)
          with u db_update_policy_Inr[of e policyId ?patch w1 row w2] l1
          show ?thesis by auto
        qed
        show ?thesis
        proof (cases r2)
          case (Inl e3)
          with Inr Some ns show ?thesis by (simp add: processApproval_def g u l2)
        next
          case upd: (Inr row)
          obtain r3 w3 where
            l: "logApproval e policyId approverId action role comments (status policy)
                  newStatus w2 = (r3, w3)"
            by (cases "logApproval e policyId approverId action role comments (status policy)
                  newStatus w2")
          show ?thesis
          proof (cases r3)
            case (Inl e4)
            with l have "w3 = request insert_approval_log w2" by (auto dest: logApproval_Inl)
            with l2 have "approval_logs w3 = approval_logs w" by simp
            with Inl Inr Some ns upd show ?thesis by (simp add: processApproval_def g u l)
          next
            case ok: (Inr u3)
            with Inr Some ns upd bad show ?thesis by (simp add: processApproval_def g u l)
          qed
        qed
      qed
    qed
  qed
qed


section \<open>The approval log only grows\<close>

lemma db_insert_policy_logs:
  "db_insert_policy e payload w = (r, w') \<Longrightarrow> approval_logs w' = approval_logs w"
  by (auto simp: db_insert_policy_def Let_def request_def split: option.splits if_splits)

lemma db_update_policy_logs:
  "db_update_policy e pid patch w = (r, w') \<Longrightarrow> approval_logs w' = approval_logs w"
  by (cases r) (auto dest: db_update_policy_Inl db_update_policy_Inr)

lemma getPolicy_logs:
  "getPolicy e pid w = (r, w') \<Longrightarrow> approval_logs w' = approval_logs w"
  using getPolicy_world[of e pid w] by simp

lemma logApproval_logs:
  "logApproval e pid a act r c s s' w = (res, w') \<Longrightarrow>
   \<exists>new. approval_logs w' = approval_logs w @ new"
  by (cases res) (auto dest: logApproval_Inl logApproval_Inr(1))

lemma generatePolicyNumber_logs:
  "generatePolicyNumber e w = (n, w') \<Longrightarrow> approval_logs w' = approval_logs w"
  by (auto simp: generatePolicyNumber_def Let_def split: if_splits)

lemma createPolicy_logs:
  "approval_logs (snd (createPolicy e policyData w)) = approval_logs w"
  by (auto simp: createPolicy_def createPolicy_with_def Let_def
        split: prod.splits sum.splits
        dest!: generatePolicyNumber_logs db_insert_policy_logs)

lemma updatePolicy_logs:
  "approval_logs (snd (updatePolicy e policyId updates w)) = approval_logs w"
  by (auto simp: updatePolicy_def split: prod.splits sum.splits dest!: db_update_policy_logs)

lemma getPolicies_logs:
  "approval_logs (snd (getPolicies e filters w)) = approval_logs w"
  by (simp add: getPolicies_def db_select_policies_def Let_def)

lemma getApprovalLogs_logs:
  "approval_logs (snd (getApprovalLogs e policyId w)) = approval_logs w"
  by (simp add: getApprovalLogs_def db_select_approval_logs_def Let_def)

lemma submitPolicy_logs:
  "\<exists>new. approval_logs (snd (submitPolicy e policyId creatorId w)) = approval_logs w @ new"
  by (auto simp: submitPolicy_def split: prod.splits sum.splits option.splits
        dest!: getPolicy_logs db_update_policy_logs logApproval_logs)

lemma processApproval_logs:
  "\<exists>new. approval_logs (snd (processApproval e policyId approverId action role comments w))
          = approval_logs w @ new"
  by (auto simp: processApproval_def split: prod.splits sum.splits option.splits
        dest!: getPolicy_logs db_update_policy_logs logApproval_logs)

lemma exec_logs: "\<exists>new. approval_logs (exec e oper w) = approval_logs w @ new"
proof (cases oper)
  case (LogApproval policyId approverId action role comments previousStatus newStatus)
  obtain res w' where
    "logApproval e policyId approverId action role comments previousStatus newStatus w = (res, w')"
    by (cases "logApproval e policyId approverId action role comments previousStatus newStatus w")
  with LogApproval show ?thesis by (auto dest: logApproval_logs)
qed (simp_all add: createPolicy_logs updatePolicy_logs getPolicies_logs getPolicy_world
       getApprovalLogs_logs submitPolicy_logs processApproval_logs)

text \<open>
  Claim C9. The approval log is append-only: after any service call, and after any
  sequence of service calls, the log is the log before followed by the entries added;
  no call changes or removes an entry that is there.
\<close>

theorem approval_logs_append_only:
  "(\<exists>new. approval_logs (exec e oper w) = approval_logs w @ new)
   \<and> (\<exists>new. approval_logs (run calls w) = approval_logs w @ new)"
proof
  show "\<exists>new. approval_logs (exec e oper w) = approval_logs w @ new" by (rule exec_logs)
  show "\<exists>new. approval_logs (run calls w) = approval_logs w @ new"
  proof (induction calls arbitrary: w)
    case Nil
    show ?case by simp
  next
    case (Cons c calls)
    obtain e' oper' where c: "c = (e', oper')" by (cases c)
    from exec_logs obtain n1 where n1: "approval_logs (exec e' oper' w) = approval_logs w @ n1"
      by blast
    from Cons.IH obtain n2 where
      "approval_logs (run calls (exec e' oper' w)) = approval_logs (exec e' oper' w) @ n2"
      by blast
    with n1 c show ?case by simp
  qed
qed

theorem approval_logs_append_only_witness:
  "(\<exists>new. approval_logs
            (exec (session 2 11) (ProcessApproval 10 2 act_rejected ''underwriter'' ''no'')
               (office_with pending_underwriter))
          = approval_logs (office_with pending_underwriter) @ new)
   \<and> (\<exists>new. approval_logs
            (run [(session 1 10, CreatePolicy dan),
                  (session 1 11, ProcessApproval 10 1 act_rejected ''creator'' ''no'')] office)
          = approval_logs office @ new)"
  using approval_logs_append_only
          [of "session 2 11" "ProcessApproval 10 2 act_rejected ''underwriter'' ''no''"
              "office_with pending_underwriter"]
        approval_logs_append_only
          [where w = office
             and calls = "[(session 1 10, CreatePolicy dan),
                  (session 1 11, ProcessApproval 10 1 act_rejected ''creator'' ''no'')]"]
  by blast

section \<open>Creation and the fraud check\<close>






section \<open>Comments on approval and rejection\<close>

lemma trim_empty_iff: "(trim s = []) = list_all is_white_space s"
proof
  assume "list_all is_white_space s"
  then have "dropWhile is_white_space s = []"
    by (metis dropWhile_eq_Nil_conv list_all_iff)
  then show "trim s = []" unfolding trim_def by (simp only: rev.simps dropWhile.simps)
next
  assume "trim s = []"
  then have "\<forall>c\<in>set (dropWhile is_white_space s). is_white_space c"
    by (simp add: trim_def dropWhile_eq_Nil_conv)
  then have "dropWhile is_white_space s = []"
    by (metis hd_dropWhile hd_in_set)
  then show "list_all is_white_space s"
    by (metis dropWhile_eq_Nil_conv list_all_iff)
qed

text \<open>
  Claim C3, as it is stated, of every reject action. The service does not read the
  comment: the underwriter \<open>bob\<close> calls \<^verbatim>\<open>processApproval\<close> with the action \<^verbatim>\<open>rejected\<close> and
  an empty comment, and again with a comment of a space and a tab, on a policy that
  awaits the underwriter; each call returns normally and the policy is rejected.
\<close>

theorem reject_with_blank_comment_counterexample:
  "status_of (office_with pending_underwriter) 10 = Some pending_underwriter
   \<and> fst (processApproval (session 2 11) 10 2 act_rejected ''underwriter'' []
            (office_with pending_underwriter))
       = Inr (policy_10 rejected\<lparr>p_updated_at := 1000\<rparr>)
   \<and> status_of (snd (processApproval (session 2 11) 10 2 act_rejected ''underwriter'' []
                        (office_with pending_underwriter))) 10
       = Some rejected
   \<and> trim [CHR '' '', CHR 0x09] = []
   \<and> fst (processApproval (session 2 11) 10 2 act_rejected ''underwriter''
            [CHR '' '', CHR 0x09] (office_with pending_underwriter))
       = Inr (policy_10 rejected\<lparr>p_updated_at := 1000\<rparr>)
   \<and> status_of (snd (processApproval (session 2 11) 10 2 act_rejected ''underwriter''
                        [CHR '' '', CHR 0x09] (office_with pending_underwriter))) 10
       = Some rejected"
  by code_simp

text \<open>
  Claim C3, amended: the refusal is that of the detail view. A reject made through the
  handler \<^verbatim>\<open>handleReject\<close> with an empty or white-space-only comment is refused: the handler
  shows its alert and returns before any request is made, so that the world, and with it
  every policy's status, is as it was. An approve with an empty comment succeeds: for the
  stored profile \<open>pr\<close> of the signed-in user and the stored policy \<open>p\<close>, in a status that
  matches the user's role, \<^verbatim>\<open>handleApprove\<close> ends in \<^verbatim>\<open>onUpdate\<close> and the policy has moved
  on.
\<close>

theorem reject_needs_comment_approve_does_not:
  "(list_all is_white_space comments \<longrightarrow>
      handleReject e profile policy comments w
        = (alert ''Please provide a reason for rejection'', w))
   \<and> (filter (\<lambda>q. p_id q = p_id policy) (policies w) = [p]
       \<and> 0 < premium_amount p
       \<and> pr \<in> set (user_profiles w)
       \<and> auth_uid e = Some (u_id pr)
       \<and> \<not> list_ex (\<lambda>l. l_id l = uuid_v4 e) (approval_logs w)
       \<and> (status p = pending_underwriter \<and> u_role pr = underwriter
           \<or> status p = pending_manager \<and> u_role pr = manager) \<longrightarrow>
      fst (handleApprove e (Some pr) policy [] w) = onUpdate
      \<and> status_of (snd (handleApprove e (Some pr) policy [] w)) (p_id policy)
          = Some (if status p = pending_underwriter then pending_manager else approved))"
proof (intro conjI impI)
  assume "list_all is_white_space comments"
  then have "trim comments = []" by (simp add: trim_empty_iff)
  then show "handleReject e profile policy comments w
        = (alert ''Please provide a reason for rejection'', w)"
    by (simp add: handleReject_def)
next
  assume h: "filter (\<lambda>q. p_id q = p_id policy) (policies w) = [p]
       \<and> 0 < premium_amount p
       \<and> pr \<in> set (user_profiles w)
       \<and> auth_uid e = Some (u_id pr)
       \<and> \<not> list_ex (\<lambda>l. l_id l = uuid_v4 e) (approval_logs w)
       \<and> (status p = pending_underwriter \<and> u_role pr = underwriter
           \<or> status p = pending_manager \<and> u_role pr = manager)"
  then have one: "filter (\<lambda>q. p_id q = p_id policy) (policies w) = [p]"
    and prem: "premium_amount p > 0"
    and uid: "auth_uid e = Some (u_id pr)"
    and fresh: "\<not> list_ex (\<lambda>l. l_id l = uuid_v4 e) (approval_logs w)"
    and row: "status p = pending_underwriter \<and> u_role pr = underwriter
           \<or> status p = pending_manager \<and> u_role pr = manager"
    by simp_all
  from h have has: "profile_has_role w e (u_role pr)" by (simp add: stored_profile_role)
  define next_status where
    "next_status = (if status p = pending_underwriter then pending_manager else approved)"
  from row has have use: "policies_update_using w e p"
    by (auto simp: policies_update_using_def underwriters_update_using_def
          managers_update_using_def)
  from row have new: "newStatus_of act_approved (role_text (u_role pr)) p = Inr next_status"
    by (auto simp: newStatus_of_def role_text_def next_status_def)
  note ok = processApproval_succeeds[OF one prem uid fresh use new, of "[]"]
  obtain r w' where
    pa: "processApproval e (p_id policy) (u_id pr) act_approved (role_text (u_role pr)) [] w
           = (r, w')"
    by (cases "processApproval e (p_id policy) (u_id pr) act_approved
                 (role_text (u_role pr)) [] w")
  from ok(1) pa have r: "r = Inr (p\<lparr>status := next_status, p_updated_at := now e\<rparr>)" by simp
  from ok(2) pa have st: "status_of w' (p_id policy) = Some next_status" by simp
  have ha: "handleApprove e (Some pr) policy [] w = (onUpdate, w')"
    by (simp add: handleApprove_def pa r)
  show "fst (handleApprove e (Some pr) policy [] w) = onUpdate"
    by (simp add: ha)
  show "status_of (snd (handleApprove e (Some pr) policy [] w)) (p_id policy)
          = Some (if status p = pending_underwriter then pending_manager else approved)"
    using st by (simp add: ha next_status_def)
qed

theorem reject_needs_comment_approve_does_not_witness:
  "list_all is_white_space [CHR '' '', CHR 0x09, CHR 0x0A]
   \<and> handleReject (session 2 11) (Some bob) (policy_10 pending_underwriter)
         [CHR '' '', CHR 0x09, CHR 0x0A] (office_with pending_underwriter)
       = (alert ''Please provide a reason for rejection'', office_with pending_underwriter)
   \<and> fst (handleApprove (session 2 11) (Some bob) (policy_10 pending_underwriter) []
            (office_with pending_underwriter)) = onUpdate
   \<and> status_of (snd (handleApprove (session 2 11) (Some bob) (policy_10 pending_underwriter) []
                        (office_with pending_underwriter))) 10
       = Some pending_manager"
proof -
  have a: "list_all is_white_space [CHR '' '', CHR 0x09, CHR 0x0A]" by code_simp
  have b: "filter (\<lambda>q. p_id q = p_id (policy_10 pending_underwriter))
             (policies (office_with pending_underwriter)) = [policy_10 pending_underwriter]
       \<and> 0 < premium_amount (policy_10 pending_underwriter)
       \<and> bob \<in> set (user_profiles (office_with pending_underwriter))
       \<and> auth_uid (session 2 11) = Some (u_id bob)
       \<and> \<not> list_ex (\<lambda>l. l_id l = uuid_v4 (session 2 11))
              (approval_logs (office_with pending_underwriter))
       \<and> (status (policy_10 pending_underwriter) = pending_underwriter \<and> u_role bob = underwriter
           \<or> status (policy_10 pending_underwriter) = pending_manager \<and> u_role bob = manager)"
    by (simp add: example_defs)
  have c: "p_id (policy_10 pending_underwriter) = 10" by (simp add: policy_10_def)
  from reject_needs_comment_approve_does_not
         [where comments = "[CHR '' '', CHR 0x09, CHR 0x0A]" and e = "session 2 11"
            and profile = "Some bob" and policy = "policy_10 pending_underwriter"
            and w = "office_with pending_underwriter" and p = "policy_10 pending_underwriter"
            and pr = bob] a b c
  show ?thesis by (simp add: policy_10_def)
qed

text \<open>With a comment the same reject goes through the handler.\<close>

lemma handleReject_with_comment_example:
  "fst (handleReject (session 2 11) (Some bob) (policy_10 pending_underwriter) ''no''
          (office_with pending_underwriter)) = onUpdate
   \<and> status_of (snd (handleReject (session 2 11) (Some bob) (policy_10 pending_underwriter) ''no''
                        (office_with pending_underwriter))) 10 = Some rejected"
  by code_simp

section \<open>Editing a policy\<close>

lemma creator_cannot_use_approver_policies:
  assumes uid: "auth_uid e = Some (creator_id p)"
      and rc: "\<forall>u\<in>set (user_profiles w). u_id u = creator_id p \<longrightarrow> u_role u = creator"
      and nd: "status p \<noteq> draft"
  shows "\<not> policies_update_using w e p"
  using assms
  by (auto simp: policies_update_using_def creators_update_using_def
        underwriters_update_using_def managers_update_using_def profile_has_role_def
        list_ex_iff)

lemma db_update_policy_no_target:
  assumes "filter (\<lambda>q. p_id q = pid \<and> policies_select_using w e q \<and> policies_update_using w e q)
             (policies w) = []"
  shows "\<exists>err. db_update_policy e pid patch w = (Inl err, request (update_policy pid) w)"
  using assms
  by (auto simp: db_update_policy_def Let_def split: option.splits)

text \<open>
  Claim C8. A policy that is not a draft cannot be edited by its creator: when the
  signed-in user is the creator of the stored policy \<open>p\<close>, holds the role \<^verbatim>\<open>creator\<close>, and
  \<open>p\<close> is not in status \<^verbatim>\<open>draft\<close>, \<^verbatim>\<open>updatePolicy\<close> throws and the table of policies
  (customer name, premium amount and product type of every row) is as it was; nor does
  the detail view offer the edit (\<open>canEdit\<close>).
\<close>

theorem updatePolicy_refused_unless_draft:
  assumes one: "filter (\<lambda>q. p_id q = policyId) (policies w) = [p]"
      and nd: "status p \<noteq> draft"
      and uid: "auth_uid e = Some (creator_id p)"
      and rc: "\<forall>u\<in>set (user_profiles w). u_id u = creator_id p \<longrightarrow> u_role u = creator"
  shows "(\<exists>err. fst (updatePolicy e policyId updates w) = Inl err)
         \<and> snd (updatePolicy e policyId updates w)
             = w\<lparr>requests := requests w @ [update_policy policyId]\<rparr>
         \<and> policies (snd (updatePolicy e policyId updates w)) = policies w
         \<and> \<not> canEdit profile p"
proof -
  have nu: "\<not> policies_update_using w e p"
    using uid rc nd by (rule creator_cannot_use_approver_policies)
  have "\<And>q. q \<in> set (policies w) \<Longrightarrow>
          \<not> (p_id q = policyId \<and> policies_select_using w e q \<and> policies_update_using w e q)"
  proof
    fix q assume q: "q \<in> set (policies w)"
      and t: "p_id q = policyId \<and> policies_select_using w e q \<and> policies_update_using w e q"
    from q t have "q \<in> set (filter (\<lambda>q. p_id q = policyId) (policies w))" by simp
    with one have "q = p" by simp
    with t nu show False by simp
  qed
  then have none: "filter (\<lambda>q. p_id q = policyId \<and> policies_select_using w e q
                        \<and> policies_update_using w e q) (policies w) = []"
    by (simp add: filter_empty_conv)
  from db_update_policy_no_target[OF none] obtain err where
    u: "db_update_policy e policyId (PolicyUpdates.extend updates (PolicyPatch.fields None)) w
          = (Inl err, request (update_policy policyId) w)"
    by blast
  have r: "updatePolicy e policyId updates w
             = (Inl (DbError err), request (update_policy policyId) w)"
    by (simp add: updatePolicy_def u)
  have ce: "\<not> canEdit profile p"
    using nd by (simp add: canEdit_def split: option.splits)
  show ?thesis using ce by (simp add: r request_def)
qed

theorem updatePolicy_refused_unless_draft_witness:
  "filter (\<lambda>q. p_id q = 10) (policies (office_with pending_underwriter))
     = [policy_10 pending_underwriter]
   \<and> status (policy_10 pending_underwriter) \<noteq> draft
   \<and> auth_uid (session 1 11) = Some (creator_id (policy_10 pending_underwriter))
   \<and> map u_role (filter (\<lambda>u. u_id u = creator_id (policy_10 pending_underwriter))
                    (user_profiles (office_with pending_underwriter))) = [creator]
   \<and> (\<exists>err. fst (updatePolicy (session 1 11) 10
                    \<lparr>upd_customer_name = Some ''Eve Roe'', upd_premium_amount = Some 7000,
                     upd_product_type = None\<rparr> (office_with pending_underwriter)) = Inl err)
   \<and> policies (snd (updatePolicy (session 1 11) 10
                    \<lparr>upd_customer_name = Some ''Eve Roe'', upd_premium_amount = Some 7000,
                     upd_product_type = None\<rparr> (office_with pending_underwriter)))
       = policies (office_with pending_underwriter)"
proof -
  have a: "filter (\<lambda>q. p_id q = 10) (policies (office_with pending_underwriter))
     = [policy_10 pending_underwriter]"
    by (simp add: example_defs)
  have b: "status (policy_10 pending_underwriter) \<noteq> draft"
    by (simp add: example_defs)
  have c: "auth_uid (session 1 11) = Some (creator_id (policy_10 pending_underwriter))"
    by (simp add: example_defs)
  have d: "\<forall>u\<in>set (user_profiles (office_with pending_underwriter)).
         u_id u = creator_id (policy_10 pending_underwriter) \<longrightarrow> u_role u = creator"
    by (simp add: example_defs)
  have d': "map u_role (filter (\<lambda>u. u_id u = creator_id (policy_10 pending_underwriter))
                    (user_profiles (office_with pending_underwriter))) = [creator]"
    by (simp add: example_defs)
  from updatePolicy_refused_unless_draft[OF a b c d] a b c d'
  show ?thesis by blast
qed

text \<open>On a draft of their own the creator's update goes through.\<close>

lemma updatePolicy_on_own_draft_example:
  "fst (updatePolicy (session 1 11) 10
          \<lparr>upd_customer_name = Some ''Eve Roe'', upd_premium_amount = Some 7000,
           upd_product_type = None\<rparr> (office_with draft))
   = Inr ((policy_10 draft)\<lparr>customer_name := ''Eve Roe'', premium_amount := 7000,
                             p_updated_at := 1000\<rparr>)"
  by code_simp

end
